theory Spec2Isabelle
  imports Complex_Main "HOL-Library.AList"
begin

section \<open>Response unification of feedback records\<close>

text \<open>
  A shallow embedding of \<^verbatim>\<open>src/argilla/client/feedback/schemas.py\<close>: the value,
  response and record schemas, the three strategy enumerations with their reduction
  methods, the question schemas with their validators, and the unification bindings.

  The schema classes are models of a validation library (version 1 of it: the source uses
  \<^verbatim>\<open>root_validator\<close>, \<^verbatim>\<open>conlist(unique_items=...)\<close> and
  \<^verbatim>\<open>update_forward_refs\<close>). The embedding reads their field declarations as that
  library does:
  \<^item> a strict scalar type accepts exactly the values of that type;
  \<^item> a lax \<^verbatim>\<open>str\<close> inside \<^verbatim>\<open>List[str]\<close> accepts a string, and an integer
    in its decimal rendering;
  \<^item> the members of a \<^verbatim>\<open>Union\<close> are tried from left to right and the first one
    that validates gives the value (no class sets \<^verbatim>\<open>smart_union\<close> on these fields);
  \<^item> a \<^verbatim>\<open>Dict\<close> member accepts whatever \<^verbatim>\<open>dict(v)\<close> can read, so also a
    list of two-character strings;
  \<^item> a model-typed member keeps an instance of its own class, and rebuilds an instance
    of another model class from that instance's fields;
  \<^item> a string given for an enumeration-typed member becomes the member with that value.
  An exception raised inside a validator of a model makes the construction fail.
  Assigning to an attribute of a \<^verbatim>\<open>FeedbackRecord\<close> validates nothing
  (the class does not set \<^verbatim>\<open>validate_assignment\<close>).
\<close>

subsection \<open>Exceptions\<close>

datatype error =
    KeyError
  | TypeError
  | ValueError
  | ZeroDivisionError
  | IndexError
  | UnboundLocalError
  | NotImplementedError
  | OverflowError
  | ValidationError

subsection \<open>Values, responses, records\<close>

text \<open>\<^verbatim>\<open>ValueSchema.value : Union[StrictStr, StrictInt, List[str]]\<close>\<close>

datatype val = VStr string | VInt int | VList "string list"

text \<open>
  What the reduction methods hand to the constructor of \<^verbatim>\<open>UnificationValueSchema\<close>:
  the float of a true division (its value idealised as the exact quotient), a value taken
  from a response or from the keys of a counter, or a list of counter keys.
\<close>

datatype pyval = Float rat | Val val | KeyList "val list"

datatype status = submitted | discarded

record ResponseSchema =
  user_id :: "string option"
  resp_values :: "(string \<times> val) list"
  status :: status

text \<open>
  \<^verbatim>\<open>strategy: Union["RatingQuestionStrategy", "LabelQuestionStrategy",
  "MultiLabelQuestionStrategy"]\<close>: a member of one of the three enumerations below.
\<close>

datatype RatingQuestionStrategy = R_MEAN | R_MAJORITY | R_MAX | R_MIN

datatype LabelQuestionStrategy = L_MAJORITY | L_MAJORITY_WEIGHTED | L_DISAGREEMENT

datatype MultiLabelQuestionStrategy = M_MAJORITY | M_MAJORITY_WEIGHTED | M_DISAGREEMENT

datatype strategy_member =
    RatingMember RatingQuestionStrategy
  | LabelMember LabelQuestionStrategy
  | MultiLabelMember MultiLabelQuestionStrategy

record UnificationValueSchema =
  uv_value :: val
  uv_strategy :: strategy_member

text \<open>
  The methods assign to \<^verbatim>\<open>unified_responses[field]\<close> either one unification value
  or a list of them.
\<close>

datatype unified = Single UnificationValueSchema | Several "UnificationValueSchema list"

record FeedbackRecord =
  record_fields :: "(string \<times> string) list"
  responses :: "ResponseSchema list"
  external_id :: "string option"
  unified_responses :: "(string \<times> unified) list option"

subsection \<open>The strategy enumerations\<close>

text \<open>The string value of a member.\<close>

fun rating_value :: "RatingQuestionStrategy \<Rightarrow> string" where
  "rating_value R_MEAN = ''mean''"
| "rating_value R_MAJORITY = ''majority''"
| "rating_value R_MAX = ''max''"
| "rating_value R_MIN = ''min''"

fun label_value :: "LabelQuestionStrategy \<Rightarrow> string" where
  "label_value L_MAJORITY = ''majority''"
| "label_value L_MAJORITY_WEIGHTED = ''majority_weighted''"
| "label_value L_DISAGREEMENT = ''disagreement''"

fun multi_label_value :: "MultiLabelQuestionStrategy \<Rightarrow> string" where
  "multi_label_value M_MAJORITY = ''majority''"
| "multi_label_value M_MAJORITY_WEIGHTED = ''majority_weighted''"
| "multi_label_value M_DISAGREEMENT = ''disagreement''"

text \<open>Enum lookup by value, \<^verbatim>\<open>RatingQuestionStrategy(v)\<close>: ValueError on an unknown value.\<close>

definition RatingQuestionStrategy_of :: "string \<Rightarrow> error + RatingQuestionStrategy" where
  "RatingQuestionStrategy_of v =
     (if v = ''mean'' then Inr R_MEAN
      else if v = ''majority'' then Inr R_MAJORITY
      else if v = ''max'' then Inr R_MAX
      else if v = ''min'' then Inr R_MIN
      else Inl ValueError)"

definition LabelQuestionStrategy_of :: "string \<Rightarrow> error + LabelQuestionStrategy" where
  "LabelQuestionStrategy_of v =
     (if v = ''majority'' then Inr L_MAJORITY
      else if v = ''majority_weighted'' then Inr L_MAJORITY_WEIGHTED
      else if v = ''disagreement'' then Inr L_DISAGREEMENT
      else Inl ValueError)"

definition MultiLabelQuestionStrategy_of :: "string \<Rightarrow> error + MultiLabelQuestionStrategy" where
  "MultiLabelQuestionStrategy_of v =
     (if v = ''majority'' then Inr M_MAJORITY
      else if v = ''majority_weighted'' then Inr M_MAJORITY_WEIGHTED
      else if v = ''disagreement'' then Inr M_DISAGREEMENT
      else Inl ValueError)"

subsection \<open>Constructing a unification value\<close>

text \<open>Python's \<^verbatim>\<open>str\<close> of an integer.\<close>

fun str_nat :: "nat \<Rightarrow> string" where
  "str_nat n =
     (if n < 10 then [char_of (48 + n)]
      else str_nat (n div 10) @ [char_of (48 + n mod 10)])"

declare str_nat.simps [simp del]

definition str_int :: "int \<Rightarrow> string" where
  "str_int i = (if i < 0 then CHR ''-'' # str_nat (nat (- i)) else str_nat (nat i))"

text \<open>An element of \<^verbatim>\<open>List[str]\<close>.\<close>

fun str_validator :: "val \<Rightarrow> error + string" where
  "str_validator (VStr s) = Inr s"
| "str_validator (VInt i) = Inr (str_int i)"
| "str_validator (VList xs) = Inl ValidationError"

fun str_list_validator :: "val list \<Rightarrow> error + string list" where
  "str_list_validator [] = Inr []"
| "str_list_validator (x # xs) =
     (case str_validator x of
        Inl e \<Rightarrow> Inl e
      | Inr s \<Rightarrow> (case str_list_validator xs of Inl e \<Rightarrow> Inl e | Inr ss \<Rightarrow> Inr (s # ss)))"

text \<open>
  The field \<^verbatim>\<open>value\<close>: the members of the union are tried in the order
  \<^verbatim>\<open>StrictStr\<close>, \<^verbatim>\<open>StrictInt\<close>, \<^verbatim>\<open>List[str]\<close>. A float is none of them.
\<close>

fun value_validator :: "pyval \<Rightarrow> error + val" where
  "value_validator (Val v) = Inr v"
| "value_validator (Float q) = Inl ValidationError"
| "value_validator (KeyList ks) =
     (case str_list_validator ks of Inl e \<Rightarrow> Inl e | Inr ss \<Rightarrow> Inr (VList ss))"

text \<open>
  The field \<^verbatim>\<open>strategy\<close>: the methods pass \<^verbatim>\<open>self.value\<close>, a string, which
  becomes the member with that value of the first enumeration of the union that has one.
  So \<^verbatim>\<open>"majority"\<close> is stored as \<^verbatim>\<open>RatingQuestionStrategy.MAJORITY\<close> whichever
  strategy passes it, and \<^verbatim>\<open>"disagreement"\<close> as
  \<^verbatim>\<open>LabelQuestionStrategy.DISAGREEMENT\<close>.
\<close>

definition strategy_validator :: "string \<Rightarrow> error + strategy_member" where
  "strategy_validator s =
     (case RatingQuestionStrategy_of s of
        Inr r \<Rightarrow> Inr (RatingMember r)
      | Inl _ \<Rightarrow>
          (case LabelQuestionStrategy_of s of
             Inr l \<Rightarrow> Inr (LabelMember l)
           | Inl _ \<Rightarrow>
               (case MultiLabelQuestionStrategy_of s of
                  Inr m \<Rightarrow> Inr (MultiLabelMember m)
                | Inl _ \<Rightarrow> Inl ValidationError)))"


definition UnificationValueSchema_new :: "pyval \<Rightarrow> string \<Rightarrow> error + UnificationValueSchema" where
  "UnificationValueSchema_new v s =
     (case value_validator v of
        Inl e \<Rightarrow> Inl e
      | Inr v' \<Rightarrow>
          (case strategy_validator s of
             Inl e \<Rightarrow> Inl e
           | Inr member \<Rightarrow> Inr \<lparr>uv_value = v', uv_strategy = member\<rparr>))"

subsection \<open>Questions\<close>

text \<open>
  \<^verbatim>\<open>settings : Dict[str, Any]\<close> is a dict in insertion order; assigning to a key
  is \<^const>\<open>AList.update\<close>. Of \<^verbatim>\<open>QuestionSchema\<close> the embedding keeps
  \<^verbatim>\<open>name\<close>; \<^verbatim>\<open>title\<close>, \<^verbatim>\<open>description\<close> and \<^verbatim>\<open>required\<close>
  are read by none of the validators below and by no reduction method.
\<close>

datatype json = JNone | JInt int | JStr string | JList "json list" | JDict "(string \<times> json) list"

record TextQuestion =
  tq_name :: string
  tq_use_markdown :: bool
  tq_settings :: "(string \<times> json) list"

record RatingQuestion =
  rq_name :: string
  rq_values :: "int list"
  rq_settings :: "(string \<times> json) list"

text \<open>
  \<^verbatim>\<open>labels : Union[conlist(str, unique_items=True, min_items=2), Dict[str, str]]\<close>.
  A dict is the list of its items in insertion order; its keys are distinct.
\<close>

datatype labels = LabelList "string list" | LabelDict "(string \<times> string) list"

text \<open>A keyword argument that has a default may be left out.\<close>

datatype 'a arg = Omitted | Given 'a

record LabelQuestionSchema =
  lq_name :: string
  lq_labels :: labels
  lq_visible_labels :: "int option"
  lq_settings :: "(string \<times> json) list"

text \<open>
  \<^verbatim>\<open>LabelQuestion\<close> and \<^verbatim>\<open>MultiLabelQuestion\<close> are the two subclasses of
  \<^verbatim>\<open>_LabelQuestion\<close>; they have the same fields.
\<close>

datatype label_question =
    LabelQuestion LabelQuestionSchema
  | MultiLabelQuestion LabelQuestionSchema

datatype question =
    TextQ TextQuestion
  | RatingQ RatingQuestion
  | LabelsQ label_question

text \<open>
  \<^verbatim>\<open>values: List[int] = Field(unique_items=True, min_items=2)\<close>, then the root
  validator \<^verbatim>\<open>update_settings\<close> on the default settings \<^verbatim>\<open>{"type": "rating"}\<close>.
\<close>

definition RatingQuestion_new :: "string \<Rightarrow> int list \<Rightarrow> error + RatingQuestion" where
  "RatingQuestion_new nm vs =
     (if length vs < 2 then Inl ValidationError
      else if \<not> distinct vs then Inl ValidationError
      else Inr \<lparr>rq_name = nm, rq_values = vs,
                rq_settings =
                  AList.update ''options'' (JList (map (\<lambda>v. JDict [(''value'', JInt v)]) vs))
                    [(''type'', JStr ''rating'')]\<rparr>)"

text \<open>
  \<^verbatim>\<open>dict(v)\<close> of a list of strings: every element has to have exactly two
  characters, the first being the key and the second the value; a key that comes again
  keeps its place and takes the later value.
\<close>

fun dict_of_strings :: "string list \<Rightarrow> (string \<times> string) list \<Rightarrow> error + (string \<times> string) list" where
  "dict_of_strings [] d = Inr d"
| "dict_of_strings (s # ss) d =
     (case s of
        [k, v] \<Rightarrow> dict_of_strings ss (AList.update [k] [v] d)
      | _ \<Rightarrow> Inl ValueError)"

text \<open>
  The field type of \<^verbatim>\<open>labels\<close>. A list is first checked as the constrained list
  (at least 2 items, all different); a list that fails there is tried as the
  \<^verbatim>\<open>Dict[str, str]\<close> member. A dict is not a list and is taken as the dict it is.
\<close>

fun labels_field :: "labels \<Rightarrow> error + labels" where
  "labels_field (LabelList ls) =
     (if \<not> length ls < 2 \<and> distinct ls then Inr (LabelList ls)
      else (case dict_of_strings ls [] of
              Inl e \<Rightarrow> Inl ValidationError
            | Inr d \<Rightarrow> Inr (LabelDict d)))"
| "labels_field (LabelDict d) = Inr (LabelDict d)"

text \<open>The validator \<^verbatim>\<open>labels_dict_must_be_valid\<close>; a failed assertion fails the construction.\<close>

fun labels_dict_must_be_valid :: "labels \<Rightarrow> error + labels" where
  "labels_dict_must_be_valid (LabelDict d) =
     (if \<not> length (map fst d) > 1 then Inl ValidationError
      else if \<not> length (remdups (map snd d)) = length (map snd d) then Inl ValidationError
      else Inr (LabelDict d))"
| "labels_dict_must_be_valid (LabelList ls) = Inr (LabelList ls)"

text \<open>\<^verbatim>\<open>visible_labels: Optional[conint(ge=3)] = 20\<close>\<close>

fun visible_labels_field :: "int option arg \<Rightarrow> error + int option" where
  "visible_labels_field Omitted = Inr (Some 20)"
| "visible_labels_field (Given None) = Inr None"
| "visible_labels_field (Given (Some n)) = (if n \<ge> 3 then Inr (Some n) else Inl ValidationError)"

text \<open>The root validator \<^verbatim>\<open>_LabelQuestion.update_settings\<close>.\<close>

definition update_settings ::
  "(string \<times> json) list \<Rightarrow> labels \<Rightarrow> int option \<Rightarrow> (string \<times> json) list" where
  "update_settings settings ls visible =
     (let settings1 =
            (case ls of
               LabelDict d \<Rightarrow>
                 AList.update ''options''
                   (JList (map (\<lambda>(key, text). JDict [(''value'', JStr key), (''text'', JStr text)]) d))
                   settings
             | LabelList l \<Rightarrow>
                 AList.update ''options''
                   (JList (map (\<lambda>label. JDict [(''value'', JStr label), (''text'', JStr label)]) l))
                   settings)
      in AList.update ''visible_options''
           (case visible of None \<Rightarrow> JNone | Some n \<Rightarrow> JInt n) settings1)"

text \<open>
  \<^verbatim>\<open>_LabelQuestion\<close>: every field is validated, and the root validator runs only when
  none has failed (\<^verbatim>\<open>skip_on_failure=True\<close>). The first argument is the default of
  \<^verbatim>\<open>settings\<close>, which the two subclasses set.
\<close>

definition LabelQuestion_base_new ::
  "(string \<times> json) list \<Rightarrow> string \<Rightarrow> labels \<Rightarrow> int option arg \<Rightarrow> error + LabelQuestionSchema" where
  "LabelQuestion_base_new settings nm ls visible =
     (let checked_labels =
            (case labels_field ls of Inl e \<Rightarrow> Inl e | Inr l \<Rightarrow> labels_dict_must_be_valid l);
          checked_visible = visible_labels_field visible
      in case (checked_labels, checked_visible) of
           (Inr l, Inr v) \<Rightarrow>
             Inr \<lparr>lq_name = nm, lq_labels = l, lq_visible_labels = v,
                  lq_settings = update_settings settings l v\<rparr>
         | _ \<Rightarrow> Inl ValidationError)"

definition LabelQuestion_new ::
  "string \<Rightarrow> labels \<Rightarrow> int option arg \<Rightarrow> error + LabelQuestionSchema" where
  "LabelQuestion_new = LabelQuestion_base_new [(''type'', JStr ''label_selection'')]"

definition MultiLabelQuestion_new ::
  "string \<Rightarrow> labels \<Rightarrow> int option arg \<Rightarrow> error + LabelQuestionSchema" where
  "MultiLabelQuestion_new = LabelQuestion_base_new [(''type'', JStr ''multi_label_selection'')]"

subsection \<open>Python built-ins used by the reduction methods\<close>

text \<open>
  Ordering of two values: integers by size, strings by code point, lists element by
  element (the first differing pair decides, then the lengths); values of different
  types do not compare.
\<close>

fun list_lt :: "('a \<Rightarrow> 'a \<Rightarrow> bool) \<Rightarrow> 'a list \<Rightarrow> 'a list \<Rightarrow> bool" where
  "list_lt lt [] [] = False"
| "list_lt lt [] (y # ys) = True"
| "list_lt lt (x # xs) [] = False"
| "list_lt lt (x # xs) (y # ys) = (if x = y then list_lt lt xs ys else lt x y)"

definition str_lt :: "string \<Rightarrow> string \<Rightarrow> bool" where
  "str_lt = list_lt (\<lambda>c d. (of_char c :: nat) < of_char d)"

fun py_lt :: "val \<Rightarrow> val \<Rightarrow> error + bool" where
  "py_lt (VInt a) (VInt b) = Inr (a < b)"
| "py_lt (VStr a) (VStr b) = Inr (str_lt a b)"
| "py_lt (VList a) (VList b) = Inr (list_lt str_lt a b)"
| "py_lt _ _ = Inl TypeError"

text \<open>
  \<^verbatim>\<open>max(xs)\<close> and \<^verbatim>\<open>min(xs)\<close>: ValueError on an empty sequence; otherwise the
  first element is kept until a later one is greater (smaller).
\<close>

fun py_max_from :: "val \<Rightarrow> val list \<Rightarrow> error + val" where
  "py_max_from m [] = Inr m"
| "py_max_from m (x # xs) =
     (case py_lt m x of Inl e \<Rightarrow> Inl e | Inr b \<Rightarrow> py_max_from (if b then x else m) xs)"

fun py_min_from :: "val \<Rightarrow> val list \<Rightarrow> error + val" where
  "py_min_from m [] = Inr m"
| "py_min_from m (x # xs) =
     (case py_lt x m of Inl e \<Rightarrow> Inl e | Inr b \<Rightarrow> py_min_from (if b then x else m) xs)"

definition py_max :: "val list \<Rightarrow> error + val" where
  "py_max xs = (case xs of [] \<Rightarrow> Inl ValueError | x # xs' \<Rightarrow> py_max_from x xs')"

definition py_min :: "val list \<Rightarrow> error + val" where
  "py_min xs = (case xs of [] \<Rightarrow> Inl ValueError | x # xs' \<Rightarrow> py_min_from x xs')"

text \<open>\<^verbatim>\<open>sum(xs)\<close> starts from the integer 0; adding a string or a list to it is a TypeError.\<close>

fun py_sum :: "val list \<Rightarrow> int \<Rightarrow> error + int" where
  "py_sum [] acc = Inr acc"
| "py_sum (VInt a # xs) acc = py_sum xs (acc + a)"
| "py_sum (_ # xs) acc = Inl TypeError"

text \<open>\<^verbatim>\<open>max\<close> of the counts of a counter.\<close>

definition max_count_of :: "nat list \<Rightarrow> error + nat" where
  "max_count_of cs = (case cs of [] \<Rightarrow> Inl ValueError | c # cs' \<Rightarrow> Inr (fold max cs' c))"

text \<open>
  \<^verbatim>\<open>collections.Counter\<close>: the items in insertion order.
  \<^verbatim>\<open>counter.update([x])\<close> adds one to the count of \<open>x\<close>, a new key going last.
\<close>

type_synonym Counter = "(val \<times> nat) list"

fun counter_update :: "val \<Rightarrow> Counter \<Rightarrow> Counter" where
  "counter_update x [] = [(x, 1)]"
| "counter_update x ((key, c) # items) =
     (if key = x then (key, c + 1) # items else (key, c) # counter_update x items)"

text \<open>\<^verbatim>\<open>counter.most_common(1)[0]\<close>: the first item whose count is the largest.\<close>

fun most_common_from :: "val \<times> nat \<Rightarrow> Counter \<Rightarrow> val \<times> nat" where
  "most_common_from m [] = m"
| "most_common_from m (x # xs) = most_common_from (if snd m < snd x then x else m) xs"

definition most_common_first :: "Counter \<Rightarrow> error + val \<times> nat" where
  "most_common_first counter =
     (case counter of [] \<Rightarrow> Inl IndexError | x # xs \<Rightarrow> Inr (most_common_from x xs))"

text \<open>
  \<^verbatim>\<open>random.choice(xs)\<close> on a non-empty list returns the element at an index below
  the length. The random source is a sequence \<open>rnd\<close> of raw draws; \<open>k\<close> counts the draws
  made so far.
\<close>

definition random_choice :: "(nat \<Rightarrow> nat) \<Rightarrow> nat \<Rightarrow> 'a list \<Rightarrow> 'a \<times> nat" where
  "random_choice rnd k xs = (xs ! (rnd k mod length xs), Suc k)"

subsection \<open>The loop over the records\<close>

text \<open>
  Every method runs \<^verbatim>\<open>for rec in records: ...\<close>, assigning to
  \<^verbatim>\<open>rec.unified_responses\<close>. The records are mutated in place: when the body raises at
  some record, the records before it keep their new value and the others are untouched.
  The result is the exception (if any), the records after the loop, and the draw count.
\<close>

fun for_records ::
  "(nat \<Rightarrow> FeedbackRecord \<Rightarrow> error + FeedbackRecord \<times> nat) \<Rightarrow> nat \<Rightarrow> FeedbackRecord list
     \<Rightarrow> error option \<times> FeedbackRecord list \<times> nat" where
  "for_records body k [] = (None, [], k)"
| "for_records body k (rec # recs) =
     (case body k rec of
        Inl e \<Rightarrow> (Some e, rec # recs, k)
      | Inr (rec', k') \<Rightarrow>
          (case for_records body k' recs of (r, recs', k'') \<Rightarrow> (r, rec' # recs', k'')))"

text \<open>A loop body that draws no random number.\<close>

definition pure_body ::
  "(FeedbackRecord \<Rightarrow> error + FeedbackRecord) \<Rightarrow> nat \<Rightarrow> FeedbackRecord
     \<Rightarrow> error + FeedbackRecord \<times> nat" where
  "pure_body body k rec = (case body rec of Inl e \<Rightarrow> Inl e | Inr rec' \<Rightarrow> Inr (rec', k))"

text \<open>
  What a method returns: the list it was given, a list it built itself, one of the
  records of the list it was given (by position), or nothing.
\<close>

datatype ret = TheRecords | NewList "FeedbackRecord list" | TheRecord nat | NoneValue

type_synonym outcome = "(error + ret) \<times> FeedbackRecord list \<times> nat"

text \<open>\<^verbatim>\<open>[resp for resp in rec.responses if resp.status == "submitted"]\<close>\<close>

definition submitted_responses :: "FeedbackRecord \<Rightarrow> ResponseSchema list" where
  "submitted_responses rec = filter (\<lambda>resp. status resp = submitted) (responses rec)"

text \<open>\<^verbatim>\<open>[resp.values[field].value for resp in responses]\<close>\<close>

fun field_values :: "string \<Rightarrow> ResponseSchema list \<Rightarrow> error + val list" where
  "field_values field [] = Inr []"
| "field_values field (resp # resps) =
     (case map_of (resp_values resp) field of
        None \<Rightarrow> Inl KeyError
      | Some v \<Rightarrow>
          (case field_values field resps of Inl e \<Rightarrow> Inl e | Inr vs \<Rightarrow> Inr (v # vs)))"

subsection \<open>\<^verbatim>\<open>RatingQuestionStrategy\<close>\<close>

text \<open>
  \<^verbatim>\<open>sum(ratings) / len(ratings)\<close>: a true division of two integers, whose result is
  the float nearest to the quotient. A quotient that rounds beyond the largest float
  (from \<open>2 ^ 1024 - 2 ^ 970\<close> on, in absolute value) is an OverflowError.
\<close>

definition py_truediv :: "int \<Rightarrow> nat \<Rightarrow> error + pyval" where
  "py_truediv a b =
     (if b = 0 then Inl ZeroDivisionError
      else if (2 ^ 1024 - 2 ^ 970 :: rat) \<le> \<bar>of_int a / of_nat b\<bar> then Inl OverflowError
      else Inr (Float (of_int a / of_nat b)))"

definition py_mean :: "val list \<Rightarrow> error + pyval" where
  "py_mean ratings =
     (case py_sum ratings 0 of
        Inl e \<Rightarrow> Inl e
      | Inr sum_ratings \<Rightarrow> py_truediv sum_ratings (length ratings))"

text \<open>The body of the loop of \<^verbatim>\<open>_aggregate\<close>.\<close>

definition aggregate_body ::
  "RatingQuestionStrategy \<Rightarrow> string \<Rightarrow> FeedbackRecord \<Rightarrow> error + FeedbackRecord" where
  "aggregate_body self field rec =
     (case field_values field (submitted_responses rec) of
        Inl e \<Rightarrow> Inl e
      | Inr ratings \<Rightarrow>
          (case (if self = R_MEAN then py_mean ratings
                 else if self = R_MAX then map_sum id Val (py_max ratings)
                 else if self = R_MIN then map_sum id Val (py_min ratings)
                 else Inl ValueError) of
             Inl e \<Rightarrow> Inl e
           | Inr unified_value \<Rightarrow>
               (case UnificationValueSchema_new unified_value (rating_value self) of
                  Inl e \<Rightarrow> Inl e
                | Inr uv \<Rightarrow> Inr (rec\<lparr>unified_responses := Some [(field, Single uv)]\<rparr>))))"

definition RatingQuestionStrategy_aggregate ::
  "RatingQuestionStrategy \<Rightarrow> nat \<Rightarrow> FeedbackRecord list \<Rightarrow> string \<Rightarrow> outcome" where
  "RatingQuestionStrategy_aggregate self k records field =
     (case for_records (pure_body (aggregate_body self field)) k records of
        (Some e, recs', k') \<Rightarrow> (Inl e, recs', k')
      | (None, recs', k') \<Rightarrow> (Inr TheRecords, recs', k'))"

text \<open>
  Counting \<^verbatim>\<open>counter.update([resp.values[field].value])\<close> over the submitted
  responses: a missing key is a KeyError, a list is not hashable.
\<close>

fun count_values :: "string \<Rightarrow> ResponseSchema list \<Rightarrow> Counter \<Rightarrow> error + Counter" where
  "count_values field [] counter = Inr counter"
| "count_values field (resp # resps) counter =
     (case map_of (resp_values resp) field of
        None \<Rightarrow> Inl KeyError
      | Some (VList ls) \<Rightarrow> Inl TypeError
      | Some v \<Rightarrow> count_values field resps (counter_update v counter))"

text \<open>
  The body of the loop of \<^verbatim>\<open>RatingQuestionStrategy._majority\<close> and of
  \<^verbatim>\<open>LabelQuestionStrategy._majority\<close>, which are the same statements; \<open>tag\<close> is
  \<^verbatim>\<open>self.value\<close>.
\<close>

definition majority_body ::
  "string \<Rightarrow> (nat \<Rightarrow> nat) \<Rightarrow> string \<Rightarrow> nat \<Rightarrow> FeedbackRecord \<Rightarrow> error + FeedbackRecord \<times> nat" where
  "majority_body tag rnd field k rec =
     (case count_values field (submitted_responses rec) [] of
        Inl e \<Rightarrow> Inl e
      | Inr counter \<Rightarrow>
          (case max_count_of (map snd counter) of
             Inl e \<Rightarrow> Inl e
           | Inr max_count \<Rightarrow>
               (let most_common_values =
                      map fst (filter (\<lambda>(value, count). count = max_count) counter)
                in case (if length most_common_values > 1
                         then Inr (random_choice rnd k most_common_values)
                         else map_sum id (\<lambda>item. (fst item, k)) (most_common_first counter)) of
                     Inl e \<Rightarrow> Inl e
                   | Inr (majority_value, k') \<Rightarrow>
                       (case UnificationValueSchema_new (Val majority_value) tag of
                          Inl e \<Rightarrow> Inl e
                        | Inr uv \<Rightarrow>
                            Inr (rec\<lparr>unified_responses := Some [(field, Several [uv])]\<rparr>, k')))))"

definition RatingQuestionStrategy_majority ::
  "RatingQuestionStrategy \<Rightarrow> (nat \<Rightarrow> nat) \<Rightarrow> nat \<Rightarrow> FeedbackRecord list \<Rightarrow> string \<Rightarrow> outcome" where
  "RatingQuestionStrategy_majority self rnd k records field =
     (case for_records (majority_body (rating_value self) rnd field) k records of
        (Some e, recs', k') \<Rightarrow> (Inl e, recs', k')
      | (None, recs', k') \<Rightarrow> (Inr TheRecords, recs', k'))"

text \<open>A field is given by name or as a question, whose name is taken.\<close>

datatype field_ref = FieldStr string | FieldQuestion question | FieldOther

definition RatingQuestionStrategy_unify_responses ::
  "RatingQuestionStrategy \<Rightarrow> (nat \<Rightarrow> nat) \<Rightarrow> nat \<Rightarrow> FeedbackRecord list \<Rightarrow> field_ref \<Rightarrow> outcome" where
  "RatingQuestionStrategy_unify_responses self rnd k records field =
     (case (case field of
              FieldStr s \<Rightarrow> Inr s
            | FieldQuestion (RatingQ q) \<Rightarrow> Inr (rq_name q)
            | _ \<Rightarrow> Inl ValueError) of
        Inl e \<Rightarrow> (Inl e, records, k)
      | Inr field' \<Rightarrow>
          if rating_value self = rating_value R_MAJORITY
          then RatingQuestionStrategy_majority self rnd k records field'
          else RatingQuestionStrategy_aggregate self k records field')"

subsection \<open>\<^verbatim>\<open>LabelQuestionStrategyMixin\<close> and its two enumerations\<close>

datatype label_strategy = LabelS LabelQuestionStrategy | MultiLabelS MultiLabelQuestionStrategy

fun strategy_value :: "label_strategy \<Rightarrow> string" where
  "strategy_value (LabelS s) = label_value s"
| "strategy_value (MultiLabelS s) = multi_label_value s"

text \<open>The list comprehension of \<^verbatim>\<open>_disagreement\<close>.\<close>

fun disagreement_values ::
  "string \<Rightarrow> string \<Rightarrow> ResponseSchema list \<Rightarrow> error + UnificationValueSchema list" where
  "disagreement_values tag field [] = Inr []"
| "disagreement_values tag field (resp # resps) =
     (case map_of (resp_values resp) field of
        None \<Rightarrow> Inl KeyError
      | Some v \<Rightarrow>
          (case UnificationValueSchema_new (Val v) tag of
             Inl e \<Rightarrow> Inl e
           | Inr uv \<Rightarrow>
               (case disagreement_values tag field resps of
                  Inl e \<Rightarrow> Inl e
                | Inr uvs \<Rightarrow> Inr (uv # uvs))))"

definition disagreement_body :: "string \<Rightarrow> string \<Rightarrow> FeedbackRecord \<Rightarrow> error + FeedbackRecord" where
  "disagreement_body tag field rec =
     (case disagreement_values tag field (submitted_responses rec) of
        Inl e \<Rightarrow> Inl e
      | Inr uvs \<Rightarrow> Inr (rec\<lparr>unified_responses := Some [(field, Several uvs)]\<rparr>))"

text \<open>
  \<^verbatim>\<open>_disagreement\<close> returns \<^verbatim>\<open>unified_records\<close>, a list it creates empty and
  never appends to.
\<close>

definition LabelQuestionStrategyMixin_disagreement ::
  "label_strategy \<Rightarrow> nat \<Rightarrow> FeedbackRecord list \<Rightarrow> string \<Rightarrow> outcome" where
  "LabelQuestionStrategyMixin_disagreement self k records field =
     (case for_records (pure_body (disagreement_body (strategy_value self) field)) k records of
        (Some e, recs', k') \<Rightarrow> (Inl e, recs', k')
      | (None, recs', k') \<Rightarrow> (Inr (NewList []), recs', k'))"

text \<open>
  \<^verbatim>\<open>LabelQuestionStrategy._majority\<close> returns \<^verbatim>\<open>rec\<close>, the loop variable: the
  last record, and an unbound name when the list is empty.
\<close>

definition LabelQuestionStrategy_majority ::
  "LabelQuestionStrategy \<Rightarrow> (nat \<Rightarrow> nat) \<Rightarrow> nat \<Rightarrow> FeedbackRecord list \<Rightarrow> string \<Rightarrow> outcome" where
  "LabelQuestionStrategy_majority self rnd k records field =
     (case for_records (majority_body (label_value self) rnd field) k records of
        (Some e, recs', k') \<Rightarrow> (Inl e, recs', k')
      | (None, recs', k') \<Rightarrow>
          if records = [] then (Inl UnboundLocalError, recs', k')
          else (Inr (TheRecord (length records - 1)), recs', k'))"

text \<open>
  Counting in \<^verbatim>\<open>MultiLabelQuestionStrategy._majority\<close>: every element of a list
  value, or the value itself when it is not a list.
\<close>

fun count_labels :: "string \<Rightarrow> ResponseSchema list \<Rightarrow> Counter \<Rightarrow> error + Counter" where
  "count_labels field [] counter = Inr counter"
| "count_labels field (resp # resps) counter =
     (case map_of (resp_values resp) field of
        None \<Rightarrow> Inl KeyError
      | Some (VList ls) \<Rightarrow>
          count_labels field resps (fold (\<lambda>value c. counter_update (VStr value) c) ls counter)
      | Some v \<Rightarrow> count_labels field resps (counter_update v counter))"

definition multi_label_majority_body ::
  "string \<Rightarrow> string \<Rightarrow> FeedbackRecord \<Rightarrow> error + FeedbackRecord" where
  "multi_label_majority_body tag field rec =
     (let resps = submitted_responses rec
      in case count_labels field resps [] of
           Inl e \<Rightarrow> Inl e
         | Inr counter \<Rightarrow>
             (let majority = length resps div 2 + 1;
                  majority_value = map fst (filter (\<lambda>(value, count). count \<ge> majority) counter)
              in case UnificationValueSchema_new (KeyList majority_value) tag of
                   Inl e \<Rightarrow> Inl e
                 | Inr uv \<Rightarrow> Inr (rec\<lparr>unified_responses := Some [(field, Single uv)]\<rparr>)))"

definition MultiLabelQuestionStrategy_majority ::
  "MultiLabelQuestionStrategy \<Rightarrow> nat \<Rightarrow> FeedbackRecord list \<Rightarrow> string \<Rightarrow> outcome" where
  "MultiLabelQuestionStrategy_majority self k records field =
     (case for_records (pure_body (multi_label_majority_body (multi_label_value self) field))
             k records of
        (Some e, recs', k') \<Rightarrow> (Inl e, recs', k')
      | (None, recs', k') \<Rightarrow> (Inr TheRecords, recs', k'))"

text \<open>
  \<^verbatim>\<open>LabelQuestionStrategyMixin.unify_responses\<close>; \<^verbatim>\<open>_majority_weighted\<close> raises
  NotImplementedError in both enumerations.
\<close>

definition LabelQuestionStrategyMixin_unify_responses ::
  "label_strategy \<Rightarrow> (nat \<Rightarrow> nat) \<Rightarrow> nat \<Rightarrow> FeedbackRecord list \<Rightarrow> field_ref \<Rightarrow> outcome" where
  "LabelQuestionStrategyMixin_unify_responses self rnd k records field =
     (case (case field of
              FieldQuestion (LabelsQ (LabelQuestion q)) \<Rightarrow> Inr (lq_name q)
            | FieldQuestion (LabelsQ (MultiLabelQuestion q)) \<Rightarrow> Inr (lq_name q)
            | FieldStr s \<Rightarrow> Inr s
            | _ \<Rightarrow> Inl ValueError) of
        Inl e \<Rightarrow> (Inl e, records, k)
      | Inr field' \<Rightarrow>
          if strategy_value self = ''majority'' then
            (case self of
               LabelS s \<Rightarrow> LabelQuestionStrategy_majority s rnd k records field'
             | MultiLabelS s \<Rightarrow> MultiLabelQuestionStrategy_majority s k records field')
          else if strategy_value self = ''majority_weighted'' then
            (Inl NotImplementedError, records, k)
          else if strategy_value self = ''disagreement'' then
            LabelQuestionStrategyMixin_disagreement self k records field'
          else (Inr NoneValue, records, k))"

subsection \<open>The unification bindings\<close>

text \<open>What a caller may pass as \<^verbatim>\<open>strategy\<close>: a string or a member of an enumeration.\<close>

datatype strategy_given =
    AsStr string
  | AsRating RatingQuestionStrategy
  | AsLabel LabelQuestionStrategy
  | AsMultiLabel MultiLabelQuestionStrategy

record RatingQuestionUnification =
  ru_question :: RatingQuestion
  ru_strategy :: RatingQuestionStrategy

text \<open>
  \<^verbatim>\<open>question: RatingQuestion\<close>;
  \<^verbatim>\<open>strategy: Union[str, RatingQuestionStrategy] = "mean"\<close> with the validator
  \<^verbatim>\<open>strategy_must_be_valid\<close>, which also runs on the default (\<^verbatim>\<open>always=True\<close>).
\<close>

fun strategy_must_be_valid ::
  "string + RatingQuestionStrategy \<Rightarrow> error + RatingQuestionStrategy" where
  "strategy_must_be_valid (Inl v) = RatingQuestionStrategy_of v"
| "strategy_must_be_valid (Inr v) = Inr v"

definition RatingQuestionUnification_new ::
  "question \<Rightarrow> strategy_given arg \<Rightarrow> error + RatingQuestionUnification" where
  "RatingQuestionUnification_new q s =
     (let checked_question = (case q of RatingQ rq \<Rightarrow> Inr rq | _ \<Rightarrow> Inl ValidationError);
          checked_strategy =
            (case s of
               Omitted \<Rightarrow> strategy_must_be_valid (Inl ''mean'')
             | Given (AsStr v) \<Rightarrow> strategy_must_be_valid (Inl v)
             | Given (AsRating r) \<Rightarrow> strategy_must_be_valid (Inr r)
             | Given _ \<Rightarrow> Inl ValidationError)
      in case (checked_question, checked_strategy) of
           (Inr rq, Inr st) \<Rightarrow> Inr \<lparr>ru_question = rq, ru_strategy = st\<rparr>
         | _ \<Rightarrow> Inl ValidationError)"

record LabelQuestionUnification =
  lu_question :: label_question
  lu_strategy :: label_strategy

text \<open>
  The root validator \<^verbatim>\<open>strategy_must_be_valid_and_align_with_question\<close>. It is
  declared without \<^verbatim>\<open>skip_on_failure\<close>, so it also runs when a field has failed and
  is then missing from \<^verbatim>\<open>values\<close>: a missing strategy is read as
  \<^verbatim>\<open>"majority"\<close>, a missing question is a KeyError.
\<close>

fun align_with_question :: "label_question \<Rightarrow> string + label_strategy \<Rightarrow> error + label_strategy" where
  "align_with_question (LabelQuestion q) (Inl v) = map_sum id LabelS (LabelQuestionStrategy_of v)"
| "align_with_question (LabelQuestion q) (Inr (MultiLabelS s)) = Inl ValueError"
| "align_with_question (LabelQuestion q) (Inr (LabelS s)) = Inr (LabelS s)"
| "align_with_question (MultiLabelQuestion q) (Inl v) =
     map_sum id MultiLabelS (MultiLabelQuestionStrategy_of v)"
| "align_with_question (MultiLabelQuestion q) (Inr (LabelS s)) = Inl ValueError"
| "align_with_question (MultiLabelQuestion q) (Inr (MultiLabelS s)) = Inr (MultiLabelS s)"

definition strategy_must_be_valid_and_align_with_question ::
  "label_question option \<Rightarrow> (string + label_strategy) option \<Rightarrow> error + label_strategy" where
  "strategy_must_be_valid_and_align_with_question values_question values_strategy =
     (let strategy = (case values_strategy of None \<Rightarrow> Inl ''majority'' | Some st \<Rightarrow> st)
      in case values_question of
           None \<Rightarrow> Inl KeyError
         | Some question \<Rightarrow> align_with_question question strategy)"

text \<open>
  The field \<^verbatim>\<open>question: Union[LabelQuestion, MultiLabelQuestion]\<close>. The member
  \<^verbatim>\<open>LabelQuestion\<close> is tried first: it keeps a \<^verbatim>\<open>LabelQuestion\<close>, and it
  rebuilds a \<^verbatim>\<open>MultiLabelQuestion\<close> as a \<^verbatim>\<open>LabelQuestion\<close> from its fields
  (name, settings, labels, visible_labels), which the two classes share. Only when that
  construction fails is the member \<^verbatim>\<open>MultiLabelQuestion\<close> tried. A text or rating
  question has a field that the label classes forbid, and validates as neither.
\<close>

fun question_field :: "question \<Rightarrow> label_question option" where
  "question_field (LabelsQ (LabelQuestion q)) = Some (LabelQuestion q)"
| "question_field (LabelsQ (MultiLabelQuestion q)) =
     (case LabelQuestion_base_new (lq_settings q) (lq_name q) (lq_labels q)
             (Given (lq_visible_labels q)) of
        Inr q' \<Rightarrow> Some (LabelQuestion q')
      | Inl e \<Rightarrow> Some (MultiLabelQuestion q))"
| "question_field (RatingQ q) = None"
| "question_field (TextQ q) = None"

text \<open>
  \<^verbatim>\<open>strategy: Union[str, LabelQuestionStrategy, MultiLabelQuestionStrategy] = "majority"\<close>.
  A KeyError of the root validator leaves the constructor as it is; its ValueError, and
  the failure of a field, end in a validation error.
\<close>

definition LabelQuestionUnification_new ::
  "question \<Rightarrow> strategy_given arg \<Rightarrow> error + LabelQuestionUnification" where
  "LabelQuestionUnification_new q s =
     (let values_question = question_field q;
          values_strategy =
            (case s of
               Omitted \<Rightarrow> Some (Inl ''majority'')
             | Given (AsStr v) \<Rightarrow> Some (Inl v)
             | Given (AsLabel l) \<Rightarrow> Some (Inr (LabelS l))
             | Given (AsMultiLabel m) \<Rightarrow> Some (Inr (MultiLabelS m))
             | Given (AsRating r) \<Rightarrow> None)
      in case strategy_must_be_valid_and_align_with_question values_question values_strategy of
           Inl KeyError \<Rightarrow> Inl KeyError
         | Inl e \<Rightarrow> Inl ValidationError
         | Inr st \<Rightarrow>
             (case (values_question, values_strategy) of
                (Some lq, Some _) \<Rightarrow> Inr \<lparr>lu_question = lq, lu_strategy = st\<rparr>
              | _ \<Rightarrow> Inl ValidationError))"

subsection \<open>\<^verbatim>\<open>TrainingDataForTextClassification\<close>\<close>

record TextField =
  tf_name :: string
  tf_use_markdown :: bool
  tf_settings :: "(string \<times> json) list"

datatype unification =
    RatingUnification RatingQuestionUnification
  | LabelUnification LabelQuestionUnification

record TrainingDataForTextClassification =
  td_text :: TextField
  td_label :: unification

text \<open>
  A call that passes all its arguments by keyword: a keyword that is no parameter of the
  callee, or a parameter without default that no keyword supplies, is a TypeError.
\<close>

definition bind_keywords :: "string list \<Rightarrow> string list \<Rightarrow> error + unit" where
  "bind_keywords parameters keywords =
     (if filter (\<lambda>kw. kw \<notin> set parameters) keywords \<noteq> [] then Inl TypeError
      else if filter (\<lambda>p. p \<notin> set keywords) parameters \<noteq> [] then Inl TypeError
      else Inr ())"

text \<open>
  Both \<^verbatim>\<open>unify_responses\<close> methods of the strategies are declared
  \<^verbatim>\<open>def unify_responses(self, records, field)\<close>.
\<close>

definition unify_responses_parameters :: "string list" where
  "unify_responses_parameters = [''records'', ''field'']"

text \<open>
  \<^verbatim>\<open>self.label.strategy.unify_responses(responses=responses, field=self.label.question)\<close>;
  the method has no \<^verbatim>\<open>return\<close> statement.
\<close>

definition TrainingDataForTextClassification_unify_responses ::
  "TrainingDataForTextClassification \<Rightarrow> (nat \<Rightarrow> nat) \<Rightarrow> nat \<Rightarrow> FeedbackRecord list \<Rightarrow> outcome" where
  "TrainingDataForTextClassification_unify_responses self rnd k resps =
     (case bind_keywords unify_responses_parameters [''responses'', ''field''] of
        Inl e \<Rightarrow> (Inl e, resps, k)
      | Inr _ \<Rightarrow>
          (case (case td_label self of
                   RatingUnification u \<Rightarrow>
                     RatingQuestionStrategy_unify_responses (ru_strategy u) rnd k resps
                       (FieldQuestion (RatingQ (ru_question u)))
                 | LabelUnification u \<Rightarrow>
                     LabelQuestionStrategyMixin_unify_responses (lu_strategy u) rnd k resps
                       (FieldQuestion (LabelsQ (lu_question u)))) of
             (Inl e, recs', k') \<Rightarrow> (Inl e, recs', k')
           | (Inr _, recs', k') \<Rightarrow> (Inr NoneValue, recs', k')))"

subsection \<open>The specification's reading of an invalid label configuration\<close>

text \<open>
  Modelled on the specification's sentence, to be compared with the constructor: a label
  question is invalid when its labels have fewer than 2 entries, or in dict form fewer
  than 2 distinct display texts, or when \<^verbatim>\<open>visible_labels\<close> is an integer below 3.
\<close>

definition spec_invalid_labels :: "labels \<Rightarrow> int option arg \<Rightarrow> bool" where
  "spec_invalid_labels ls visible =
     ((case ls of
         LabelList l \<Rightarrow> length l < 2
       | LabelDict d \<Rightarrow> length d < 2 \<or> card (set (map snd d)) < 2) \<or>
      (case visible of Given (Some n) \<Rightarrow> n < 3 | _ \<Rightarrow> False))"

subsection \<open>Example records\<close>

text \<open>
  Records with one question \<^verbatim>\<open>q\<close>: ratings 4, 5, 5 submitted and 1 discarded;
  labels a, b, a submitted.
\<close>

definition response_of :: "string \<Rightarrow> val \<Rightarrow> status \<Rightarrow> ResponseSchema" where
  "response_of q v st = \<lparr>user_id = None, resp_values = [(q, v)], status = st\<rparr>"

definition record_of :: "ResponseSchema list \<Rightarrow> FeedbackRecord" where
  "record_of rs =
     \<lparr>record_fields = [(''text'', ''t'')], responses = rs, external_id = None,
      unified_responses = None\<rparr>"

definition ratings_445 :: FeedbackRecord where
  "ratings_445 =
     record_of [response_of ''q'' (VInt 4) submitted, response_of ''q'' (VInt 1) discarded,
                response_of ''q'' (VInt 5) submitted, response_of ''q'' (VInt 5) submitted]"

definition labels_aba :: FeedbackRecord where
  "labels_aba =
     record_of [response_of ''q'' (VStr ''a'') submitted, response_of ''q'' (VStr ''b'') submitted,
                response_of ''q'' (VStr ''a'') submitted]"

subsection \<open>Notions used in the statements and proofs\<close>



definition rated_a_with_b :: FeedbackRecord where
  "rated_a_with_b =
     \<lparr>record_fields = [(''text'', ''t'')],
      responses = [\<lparr>user_id = None, resp_values = [(''a'', VInt 4), (''b'', VInt 3)],
                    status = submitted\<rparr>],
      external_id = None,
      unified_responses =
        Some [(''b'', Single \<lparr>uv_value = VInt 3, uv_strategy = RatingMember R_MAX\<rparr>)]\<rparr>"


text \<open>
  The labels a response chose for a field, and how often a label was chosen by the
  submitted responses of a record, following the specification's words.
\<close>

definition chosen_labels :: "string \<Rightarrow> ResponseSchema \<Rightarrow> string list" where
  "chosen_labels field resp =
     (case map_of (resp_values resp) field of Some (VList ls) \<Rightarrow> ls | _ \<Rightarrow> [])"

definition label_frequency :: "string \<Rightarrow> FeedbackRecord \<Rightarrow> string \<Rightarrow> nat" where
  "label_frequency field rec l =
     count_list (concat (map (chosen_labels field) (submitted_responses rec))) l"


section \<open>Properties\<close>

subsection \<open>Question construction\<close>

lemma base_new_omitted:
  assumes "LabelQuestion_base_new settings nm ls Omitted = Inr q"
  shows "lq_visible_labels q = Some 20 \<and> map_of (lq_settings q) ''visible_options'' = Some (JInt 20)"
  using assms
  by (auto simp: LabelQuestion_base_new_def update_settings_def Let_def update_conv'
           split: sum.splits labels.splits)

lemma base_new_none:
  assumes "LabelQuestion_base_new settings nm ls (Given None) = Inr q"
  shows "lq_visible_labels q = None \<and> map_of (lq_settings q) ''visible_options'' = Some JNone"
  using assms
  by (auto simp: LabelQuestion_base_new_def update_settings_def Let_def update_conv'
           split: sum.splits labels.splits)

lemma base_new_list_succeeds:
  assumes "2 \<le> length l" "distinct l"
  shows "LabelQuestion_base_new settings nm (LabelList l) Omitted =
           Inr \<lparr>lq_name = nm, lq_labels = LabelList l, lq_visible_labels = Some 20,
                lq_settings = update_settings settings (LabelList l) (Some 20)\<rparr>"
  using assms by (simp add: LabelQuestion_base_new_def)

lemma remdups_map_length_distinct:
  "length (remdups (map f xs)) = length xs \<longleftrightarrow> distinct (map f xs)"
  using length_remdups_eq [of "map f xs"] by simp

lemma base_new_dict_succeeds:
  assumes "2 \<le> length d" "distinct (map snd d)"
  shows "LabelQuestion_base_new settings nm (LabelDict d) Omitted =
           Inr \<lparr>lq_name = nm, lq_labels = LabelDict d, lq_visible_labels = Some 20,
                lq_settings = update_settings settings (LabelDict d) (Some 20)\<rparr>"
  using assms by (simp add: LabelQuestion_base_new_def remdups_map_length_distinct)

lemma update_settings_visible:
  "map_of (update_settings settings ls (Some n)) ''visible_options'' = Some (JInt n)"
  by (simp add: update_settings_def update_conv' split: labels.splits)

text \<open>
  Claim C10. A label or multi-label question constructed without a
  \<^verbatim>\<open>visible_labels\<close> argument has \<^verbatim>\<open>visible_labels\<close> 20 and carries
  \<^verbatim>\<open>visible_options\<close> 20 in its settings, whatever labels it was constructed from;
  constructed with \<^verbatim>\<open>visible_labels=None\<close> it has None in both places. With a
  list of at least two different labels, or a dict of at least two labels with different
  display texts, the construction without \<^verbatim>\<open>visible_labels\<close> succeeds, for both
  classes.
\<close>

theorem visible_labels_default_is_20:
  assumes "new = LabelQuestion_new \<or> new = MultiLabelQuestion_new"
  shows "(new nm ls Omitted = Inr q \<longrightarrow>
            lq_visible_labels q = Some 20 \<and>
            map_of (lq_settings q) ''visible_options'' = Some (JInt 20)) \<and>
         (new nm ls (Given None) = Inr q' \<longrightarrow>
            lq_visible_labels q' = None \<and>
            map_of (lq_settings q') ''visible_options'' = Some JNone) \<and>
         (2 \<le> length l \<and> distinct l \<longrightarrow>
            (\<exists>q. new nm (LabelList l) Omitted = Inr q \<and> lq_labels q = LabelList l \<and>
                 lq_visible_labels q = Some 20 \<and>
                 map_of (lq_settings q) ''visible_options'' = Some (JInt 20))) \<and>
         (2 \<le> length d \<and> distinct (map snd d) \<longrightarrow>
            (\<exists>q. new nm (LabelDict d) Omitted = Inr q \<and> lq_labels q = LabelDict d \<and>
                 lq_visible_labels q = Some 20 \<and>
                 map_of (lq_settings q) ''visible_options'' = Some (JInt 20)))"
proof -
  obtain settings where new: "new = LabelQuestion_base_new settings"
    using assms by (auto simp: LabelQuestion_new_def MultiLabelQuestion_new_def)
  have a: "new nm ls Omitted = Inr q \<longrightarrow>
            lq_visible_labels q = Some 20 \<and>
            map_of (lq_settings q) ''visible_options'' = Some (JInt 20)"
    using base_new_omitted new by blast
  have b: "new nm ls (Given None) = Inr q' \<longrightarrow>
            lq_visible_labels q' = None \<and>
            map_of (lq_settings q') ''visible_options'' = Some JNone"
    using base_new_none new by blast
  have c: "2 \<le> length l \<and> distinct l \<longrightarrow>
            (\<exists>q. new nm (LabelList l) Omitted = Inr q \<and> lq_labels q = LabelList l \<and>
                 lq_visible_labels q = Some 20 \<and>
                 map_of (lq_settings q) ''visible_options'' = Some (JInt 20))"
    unfolding new by (simp add: base_new_list_succeeds update_settings_visible)
  have d: "2 \<le> length d \<and> distinct (map snd d) \<longrightarrow>
            (\<exists>q. new nm (LabelDict d) Omitted = Inr q \<and> lq_labels q = LabelDict d \<and>
                 lq_visible_labels q = Some 20 \<and>
                 map_of (lq_settings q) ''visible_options'' = Some (JInt 20))"
    unfolding new by (simp add: base_new_dict_succeeds update_settings_visible)
  from a b c d show ?thesis by blast
qed

theorem visible_labels_default_is_20_witness:
  "MultiLabelQuestion_new ''relevant'' (LabelList [''Yes'', ''No'']) Omitted =
     Inr \<lparr>lq_name = ''relevant'', lq_labels = LabelList [''Yes'', ''No''],
          lq_visible_labels = Some 20,
          lq_settings =
            [(''type'', JStr ''multi_label_selection''),
             (''options'',
              JList [JDict [(''value'', JStr ''Yes''), (''text'', JStr ''Yes'')],
                     JDict [(''value'', JStr ''No''), (''text'', JStr ''No'')]]),
             (''visible_options'', JInt 20)]\<rparr> \<and>
   LabelQuestion_new ''relevant'' (LabelDict [(''yes'', ''Yes''), (''no'', ''No'')]) Omitted =
     Inr \<lparr>lq_name = ''relevant'', lq_labels = LabelDict [(''yes'', ''Yes''), (''no'', ''No'')],
          lq_visible_labels = Some 20,
          lq_settings =
            [(''type'', JStr ''label_selection''),
             (''options'',
              JList [JDict [(''value'', JStr ''yes''), (''text'', JStr ''Yes'')],
                     JDict [(''value'', JStr ''no''), (''text'', JStr ''No'')]]),
             (''visible_options'', JInt 20)]\<rparr> \<and>
   MultiLabelQuestion_new ''relevant'' (LabelList [''Yes'', ''No'']) (Given None) =
     Inr \<lparr>lq_name = ''relevant'', lq_labels = LabelList [''Yes'', ''No''],
          lq_visible_labels = None,
          lq_settings =
            [(''type'', JStr ''multi_label_selection''),
             (''options'',
              JList [JDict [(''value'', JStr ''Yes''), (''text'', JStr ''Yes'')],
                     JDict [(''value'', JStr ''No''), (''text'', JStr ''No'')]]),
             (''visible_options'', JNone)]\<rparr> \<and>
   LabelQuestion_new ''relevant'' (LabelList [''ab'', ''cd'', ''ab'']) Omitted =
     Inr \<lparr>lq_name = ''relevant'', lq_labels = LabelDict [(''a'', ''b''), (''c'', ''d'')],
          lq_visible_labels = Some 20,
          lq_settings =
            [(''type'', JStr ''label_selection''),
             (''options'',
              JList [JDict [(''value'', JStr ''a''), (''text'', JStr ''b'')],
                     JDict [(''value'', JStr ''c''), (''text'', JStr ''d'')]]),
             (''visible_options'', JInt 20)]\<rparr>"
proof -
  have m: "MultiLabelQuestion_new ''relevant'' (LabelList [''Yes'', ''No'']) Omitted =
     Inr \<lparr>lq_name = ''relevant'', lq_labels = LabelList [''Yes'', ''No''],
          lq_visible_labels = Some 20,
          lq_settings =
            [(''type'', JStr ''multi_label_selection''),
             (''options'',
              JList [JDict [(''value'', JStr ''Yes''), (''text'', JStr ''Yes'')],
                     JDict [(''value'', JStr ''No''), (''text'', JStr ''No'')]]),
             (''visible_options'', JInt 20)]\<rparr>"
    by (simp add: MultiLabelQuestion_new_def LabelQuestion_base_new_def update_settings_def)
  have l: "LabelQuestion_new ''relevant'' (LabelDict [(''yes'', ''Yes''), (''no'', ''No'')]) Omitted =
     Inr \<lparr>lq_name = ''relevant'', lq_labels = LabelDict [(''yes'', ''Yes''), (''no'', ''No'')],
          lq_visible_labels = Some 20,
          lq_settings =
            [(''type'', JStr ''label_selection''),
             (''options'',
              JList [JDict [(''value'', JStr ''yes''), (''text'', JStr ''Yes'')],
                     JDict [(''value'', JStr ''no''), (''text'', JStr ''No'')]]),
             (''visible_options'', JInt 20)]\<rparr>"
    by (simp add: LabelQuestion_new_def LabelQuestion_base_new_def update_settings_def)
  have n: "MultiLabelQuestion_new ''relevant'' (LabelList [''Yes'', ''No'']) (Given None) =
     Inr \<lparr>lq_name = ''relevant'', lq_labels = LabelList [''Yes'', ''No''],
          lq_visible_labels = None,
          lq_settings =
            [(''type'', JStr ''multi_label_selection''),
             (''options'',
              JList [JDict [(''value'', JStr ''Yes''), (''text'', JStr ''Yes'')],
                     JDict [(''value'', JStr ''No''), (''text'', JStr ''No'')]]),
             (''visible_options'', JNone)]\<rparr>"
    by (simp add: MultiLabelQuestion_new_def LabelQuestion_base_new_def update_settings_def)
  have f: "LabelQuestion_new ''relevant'' (LabelList [''ab'', ''cd'', ''ab'']) Omitted =
     Inr \<lparr>lq_name = ''relevant'', lq_labels = LabelDict [(''a'', ''b''), (''c'', ''d'')],
          lq_visible_labels = Some 20,
          lq_settings =
            [(''type'', JStr ''label_selection''),
             (''options'',
              JList [JDict [(''value'', JStr ''a''), (''text'', JStr ''b'')],
                     JDict [(''value'', JStr ''c''), (''text'', JStr ''d'')]]),
             (''visible_options'', JInt 20)]\<rparr>"
    by (simp add: LabelQuestion_new_def LabelQuestion_base_new_def update_settings_def)
  from visible_labels_default_is_20 [of MultiLabelQuestion_new, OF disjI2 [OF refl]]
       visible_labels_default_is_20 [of LabelQuestion_new, OF disjI1 [OF refl]] m l n f
  show ?thesis by simp
qed

lemma visible_labels_field_fails:
  "visible_labels_field vis = Inl e \<longleftrightarrow> e = ValidationError \<and> (\<exists>n. vis = Given (Some n) \<and> n < 3)"
  by (cases vis rule: visible_labels_field.cases) auto

lemma dict_of_strings_bad_length:
  "\<exists>s \<in> set l. length s \<noteq> 2 \<Longrightarrow> dict_of_strings l d = Inl ValueError"
proof (induction l arbitrary: d)
  case Nil
  then show ?case by simp
next
  case (Cons s l)
  show ?case
  proof (cases "length s = 2")
    case True
    then obtain k v where s: "s = [k, v]"
      by (cases s; cases "tl s"; cases "tl (tl s)") auto
    from True Cons.prems have "\<exists>s \<in> set l. length s \<noteq> 2" by auto
    from Cons.IH [OF this] s show ?thesis by simp
  next
    case False
    then show ?thesis by (auto split: list.splits)
  qed
qed

text \<open>The two checks on \<^verbatim>\<open>labels\<close>, as the constructor chains them.\<close>

lemma checked_list_distinct:
  assumes "distinct l"
  shows "(case labels_field (LabelList l) of Inl e \<Rightarrow> Inl e | Inr x \<Rightarrow> labels_dict_must_be_valid x) =
           (if length l < 2 then Inl ValidationError else Inr (LabelList l))"
proof (cases "length l < 2")
  case False
  with assms show ?thesis by simp
next
  case True
  then consider "l = []" | s where "l = [s]"
    by (cases l; cases "tl l") auto
  then show ?thesis
  proof cases
    case 1
    then show ?thesis by simp
  next
    case 2
    then show ?thesis by (auto split: list.splits sum.splits)
  qed
qed

lemma checked_list_bad_length:
  assumes "\<not> distinct l" "\<exists>s \<in> set l. length s \<noteq> 2"
  shows "(case labels_field (LabelList l) of Inl e \<Rightarrow> Inl e | Inr x \<Rightarrow> labels_dict_must_be_valid x) =
           Inl ValidationError"
  using assms dict_of_strings_bad_length [of l "[]"] by simp

lemma base_new_list_fails:
  assumes "distinct l \<or> (\<exists>s \<in> set l. length s \<noteq> 2)"
  shows "LabelQuestion_base_new st nm (LabelList l) vis = Inl e \<longleftrightarrow>
     e = ValidationError \<and> (length l < 2 \<or> \<not> distinct l \<or> (\<exists>n. vis = Given (Some n) \<and> n < 3))"
proof (cases "distinct l")
  case True
  show ?thesis
    using visible_labels_field_fails [of vis] True
    unfolding LabelQuestion_base_new_def Let_def checked_list_distinct [OF True]
    by (cases "visible_labels_field vis") (auto split: sum.splits)
next
  case False
  with assms have "\<exists>s \<in> set l. length s \<noteq> 2" by blast
  from checked_list_bad_length [OF False this] show ?thesis
    using False unfolding LabelQuestion_base_new_def Let_def
    by (cases "visible_labels_field vis") (auto split: sum.splits)
qed

lemma base_new_dict_fails:
  "LabelQuestion_base_new st nm (LabelDict d) vis = Inl e \<longleftrightarrow>
     e = ValidationError \<and>
     (length d < 2 \<or> \<not> distinct (map snd d) \<or> (\<exists>n. vis = Given (Some n) \<and> n < 3))"
  using visible_labels_field_fails[of vis]
  by (cases "visible_labels_field vis")
     (auto simp: LabelQuestion_base_new_def Let_def remdups_map_length_distinct
           split: sum.splits)

text \<open>
  Claim C9, as amended. Constructing a rating question fails exactly when
  \<^verbatim>\<open>values\<close> has fewer than 2 entries or a duplicate. Constructing a label or
  multi-label question from a dict fails exactly when the dict has fewer than 2 entries or
  two entries with the same display text, or \<^verbatim>\<open>visible_labels\<close> is an integer
  below 3. Constructing it from a list fails exactly when the list has fewer than 2
  entries or a duplicate, or \<^verbatim>\<open>visible_labels\<close> is an integer below 3; this is
  stated for the lists without duplicates and for the lists with an entry that is not a
  two-character string. (A list with a duplicate whose entries all have two characters is
  read as a dict by the second member of the union, and is left out here.) The failure
  is a validation error, and \<^verbatim>\<open>visible_labels=None\<close> never causes one.
\<close>

theorem question_construction_fails_iff:
  assumes "new = LabelQuestion_new \<or> new = MultiLabelQuestion_new"
  shows "(RatingQuestion_new nm vs = Inl e \<longleftrightarrow>
            e = ValidationError \<and> (length vs < 2 \<or> \<not> distinct vs)) \<and>
         (distinct l \<or> (\<exists>s \<in> set l. length s \<noteq> 2) \<longrightarrow>
            (new nm (LabelList l) vis = Inl e \<longleftrightarrow>
               e = ValidationError \<and>
               (length l < 2 \<or> \<not> distinct l \<or> (\<exists>n. vis = Given (Some n) \<and> n < 3)))) \<and>
         (new nm (LabelDict d) vis = Inl e \<longleftrightarrow>
            e = ValidationError \<and>
            (length d < 2 \<or> \<not> distinct (map snd d) \<or> (\<exists>n. vis = Given (Some n) \<and> n < 3)))"
proof -
  obtain st where new: "new = LabelQuestion_base_new st"
    using assms by (auto simp: LabelQuestion_new_def MultiLabelQuestion_new_def)
  have "RatingQuestion_new nm vs = Inl e \<longleftrightarrow>
            e = ValidationError \<and> (length vs < 2 \<or> \<not> distinct vs)"
    by (auto simp: RatingQuestion_new_def)
  then show ?thesis
    unfolding new using base_new_list_fails [of l st nm vis e] base_new_dict_fails by blast
qed

theorem question_construction_fails_iff_witness:
  "RatingQuestion_new ''q'' [3, 3, 5] = Inl ValidationError \<and>
   RatingQuestion_new ''q'' [7] = Inl ValidationError \<and>
   LabelQuestion_new ''q'' (LabelDict [(''a'', ''X''), (''b'', ''X'')]) Omitted = Inl ValidationError \<and>
   LabelQuestion_new ''q'' (LabelList [''a'', ''b'']) (Given (Some 2)) = Inl ValidationError \<and>
   LabelQuestion_new ''q'' (LabelList [''a'', ''b'']) (Given None) \<noteq> Inl ValidationError \<and>
   MultiLabelQuestion_new ''q'' (LabelList [''a'', ''b'', ''a'']) (Given None) = Inl ValidationError \<and>
   MultiLabelQuestion_new ''q'' (LabelList [''a'']) (Given None) = Inl ValidationError"
  using question_construction_fails_iff [of LabelQuestion_new "''q''" "[3, 3, 5]" ValidationError
          "[''a'', ''b'']" "Given (Some 2)" "[(''a'', ''X''), (''b'', ''X'')]"]
        question_construction_fails_iff [of LabelQuestion_new "''q''" "[7]" ValidationError
          "[''a'', ''b'']" "Given None" "[(''a'', ''X''), (''b'', ''X'')]"]
        question_construction_fails_iff [of LabelQuestion_new "''q''" "[7]" ValidationError
          "[''a'', ''b'']" "Omitted" "[(''a'', ''X''), (''b'', ''X'')]"]
        question_construction_fails_iff [of MultiLabelQuestion_new "''q''" "[7]" ValidationError
          "[''a'', ''b'', ''a'']" "Given None" "[(''a'', ''X''), (''b'', ''X'')]"]
        question_construction_fails_iff [of MultiLabelQuestion_new "''q''" "[7]" ValidationError
          "[''a'']" "Given None" "[(''a'', ''X''), (''b'', ''X'')]"]
  by simp

text \<open>
  Claim C9 as stated fails: a dict of three labels with two distinct display texts, and a
  list of two equal labels, are rejected, though neither is invalid in the stated sense.
\<close>

theorem label_construction_counterexample:
  "LabelQuestion_new ''q'' (LabelDict [(''a'', ''X''), (''b'', ''Y''), (''c'', ''Y'')]) Omitted
     = Inl ValidationError \<and>
   \<not> spec_invalid_labels (LabelDict [(''a'', ''X''), (''b'', ''Y''), (''c'', ''Y'')]) Omitted \<and>
   LabelQuestion_new ''q'' (LabelList [''a'', ''a'']) Omitted = Inl ValidationError \<and>
   \<not> spec_invalid_labels (LabelList [''a'', ''a'']) Omitted"
  by (simp add: LabelQuestion_new_def LabelQuestion_base_new_def spec_invalid_labels_def)

subsection \<open>Constructing a binding\<close>

lemma update_same: "map_of al k = Some v \<Longrightarrow> AList.update k v al = al"
  by (induction al) (auto split: if_splits)

lemma update_settings_alt:
  "update_settings settings ls v =
     AList.update ''visible_options'' (case v of None \<Rightarrow> JNone | Some n \<Rightarrow> JInt n)
       (AList.update ''options''
          (case ls of
             LabelDict d \<Rightarrow>
               JList (map (\<lambda>(key, text). JDict [(''value'', JStr key), (''text'', JStr text)]) d)
           | LabelList l \<Rightarrow>
               JList (map (\<lambda>label. JDict [(''value'', JStr label), (''text'', JStr label)]) l))
          settings)"
  by (cases ls) (simp_all add: update_settings_def)

lemma update_twice_same:
  assumes "k1 \<noteq> k2"
  shows "AList.update k2 v2 (AList.update k1 v1 (AList.update k2 v2 (AList.update k1 v1 al))) =
           AList.update k2 v2 (AList.update k1 v1 al)"
proof -
  let ?al = "AList.update k2 v2 (AList.update k1 v1 al)"
  have "map_of ?al k1 = Some v1" using assms by (simp add: update_conv')
  then have "AList.update k1 v1 ?al = ?al" by (rule update_same)
  moreover have "map_of ?al k2 = Some v2" by (simp add: update_conv')
  then have "AList.update k2 v2 ?al = ?al" by (rule update_same)
  ultimately show ?thesis by simp
qed

lemma update_settings_again:
  "update_settings (update_settings settings ls v) ls v = update_settings settings ls v"
  unfolding update_settings_alt by (rule update_twice_same) simp

lemma labels_checked_again:
  assumes "(case labels_field ls of Inl e \<Rightarrow> Inl e | Inr x \<Rightarrow> labels_dict_must_be_valid x) = Inr l"
  shows "(case labels_field l of Inl e \<Rightarrow> Inl e | Inr x \<Rightarrow> labels_dict_must_be_valid x) = Inr l"
proof (cases l)
  case (LabelList xs)
  with assms have "ls = LabelList xs" "\<not> length xs < 2" "distinct xs"
    by (cases ls; auto split: sum.splits if_splits)+
  with LabelList show ?thesis by simp
next
  case (LabelDict d)
  with assms have "labels_dict_must_be_valid (LabelDict d) = Inr (LabelDict d)"
    by (cases ls; auto split: sum.splits if_splits)
  with LabelDict show ?thesis by simp
qed

lemma visible_labels_field_again:
  "visible_labels_field vis = Inr v \<Longrightarrow> visible_labels_field (Given v) = Inr v"
  by (cases vis rule: visible_labels_field.cases) (auto split: if_splits)

text \<open>Rebuilding a question from its own fields gives the same fields.\<close>

lemma rebuild_constructed:
  assumes "LabelQuestion_base_new st nm ls vis = Inr q"
  shows "LabelQuestion_base_new (lq_settings q) (lq_name q) (lq_labels q)
           (Given (lq_visible_labels q)) = Inr q"
proof -
  from assms obtain l v where
    l: "(case labels_field ls of Inl e \<Rightarrow> Inl e | Inr x \<Rightarrow> labels_dict_must_be_valid x) = Inr l"
    and v: "visible_labels_field vis = Inr v"
    and q: "q = \<lparr>lq_name = nm, lq_labels = l, lq_visible_labels = v,
                 lq_settings = update_settings st l v\<rparr>"
    unfolding LabelQuestion_base_new_def Let_def
    by (auto split: sum.splits)
  show ?thesis
    unfolding q LabelQuestion_base_new_def Let_def
    using labels_checked_again [OF l] visible_labels_field_again [OF v]
    by (simp add: update_settings_again)
qed

text \<open>
  A multi-label question that was constructed reaches the root validator as a
  \<^verbatim>\<open>LabelQuestion\<close>: the branch for \<^verbatim>\<open>MultiLabelQuestion\<close> is never taken.
\<close>

lemma multi_label_question_becomes_label_question:
  assumes "MultiLabelQuestion_new nm ls vis = Inr q"
  shows "LabelQuestionUnification_new (LabelsQ (MultiLabelQuestion q)) (Given (AsLabel l)) =
           Inr \<lparr>lu_question = LabelQuestion q, lu_strategy = LabelS l\<rparr>"
    and "LabelQuestionUnification_new (LabelsQ (MultiLabelQuestion q)) (Given (AsMultiLabel m)) =
           Inl ValidationError"
  using rebuild_constructed [OF assms [unfolded MultiLabelQuestion_new_def]]
  by (simp_all add: LabelQuestionUnification_new_def
        strategy_must_be_valid_and_align_with_question_def)

text \<open>
  Claim C8. The claim has the construction of a binding fail when a single-label strategy
  is paired with a multi-label question. The root validator has a branch that raises for
  this pair, but the field \<^verbatim>\<open>question\<close> has already rebuilt the multi-label
  question as a \<^verbatim>\<open>LabelQuestion\<close>: the binding is constructed, around a
  \<^verbatim>\<open>LabelQuestion\<close>. For the same reason a multi-label strategy is rejected with
  the multi-label question it belongs to, and the string \<^verbatim>\<open>"majority"\<close> becomes
  the single-label member.
\<close>

theorem multi_label_question_binds_label_strategy:
  "MultiLabelQuestion_new ''q'' (LabelList [''a'', ''b'']) Omitted =
     Inr \<lparr>lq_name = ''q'', lq_labels = LabelList [''a'', ''b''], lq_visible_labels = Some 20,
          lq_settings =
            [(''type'', JStr ''multi_label_selection''),
             (''options'',
              JList [JDict [(''value'', JStr ''a''), (''text'', JStr ''a'')],
                     JDict [(''value'', JStr ''b''), (''text'', JStr ''b'')]]),
             (''visible_options'', JInt 20)]\<rparr> \<and>
   LabelQuestionUnification_new
     (LabelsQ (MultiLabelQuestion
        \<lparr>lq_name = ''q'', lq_labels = LabelList [''a'', ''b''], lq_visible_labels = Some 20,
         lq_settings =
            [(''type'', JStr ''multi_label_selection''),
             (''options'',
              JList [JDict [(''value'', JStr ''a''), (''text'', JStr ''a'')],
                     JDict [(''value'', JStr ''b''), (''text'', JStr ''b'')]]),
             (''visible_options'', JInt 20)]\<rparr>))
     (Given (AsLabel L_MAJORITY)) =
     Inr \<lparr>lu_question = LabelQuestion
            \<lparr>lq_name = ''q'', lq_labels = LabelList [''a'', ''b''], lq_visible_labels = Some 20,
             lq_settings =
               [(''type'', JStr ''multi_label_selection''),
                (''options'',
                 JList [JDict [(''value'', JStr ''a''), (''text'', JStr ''a'')],
                        JDict [(''value'', JStr ''b''), (''text'', JStr ''b'')]]),
                (''visible_options'', JInt 20)]\<rparr>,
          lu_strategy = LabelS L_MAJORITY\<rparr> \<and>
   LabelQuestionUnification_new
     (LabelsQ (MultiLabelQuestion
        \<lparr>lq_name = ''q'', lq_labels = LabelList [''a'', ''b''], lq_visible_labels = Some 20,
         lq_settings =
            [(''type'', JStr ''multi_label_selection''),
             (''options'',
              JList [JDict [(''value'', JStr ''a''), (''text'', JStr ''a'')],
                     JDict [(''value'', JStr ''b''), (''text'', JStr ''b'')]]),
             (''visible_options'', JInt 20)]\<rparr>))
     (Given (AsMultiLabel M_MAJORITY)) = Inl ValidationError \<and>
   LabelQuestionUnification_new
     (LabelsQ (MultiLabelQuestion
        \<lparr>lq_name = ''q'', lq_labels = LabelList [''a'', ''b''], lq_visible_labels = Some 20,
         lq_settings =
            [(''type'', JStr ''multi_label_selection''),
             (''options'',
              JList [JDict [(''value'', JStr ''a''), (''text'', JStr ''a'')],
                     JDict [(''value'', JStr ''b''), (''text'', JStr ''b'')]]),
             (''visible_options'', JInt 20)]\<rparr>))
     (Given (AsStr ''majority'')) =
     Inr \<lparr>lu_question = LabelQuestion
            \<lparr>lq_name = ''q'', lq_labels = LabelList [''a'', ''b''], lq_visible_labels = Some 20,
             lq_settings =
               [(''type'', JStr ''multi_label_selection''),
                (''options'',
                 JList [JDict [(''value'', JStr ''a''), (''text'', JStr ''a'')],
                        JDict [(''value'', JStr ''b''), (''text'', JStr ''b'')]]),
                (''visible_options'', JInt 20)]\<rparr>,
          lu_strategy = LabelS L_MAJORITY\<rparr>"
  by (simp add: MultiLabelQuestion_new_def LabelQuestion_base_new_def update_settings_def
        LabelQuestionUnification_new_def strategy_must_be_valid_and_align_with_question_def
        LabelQuestionStrategy_of_def)

subsection \<open>The reduction methods at concrete records\<close>

lemmas eval_defs =
  RatingQuestionStrategy_unify_responses_def RatingQuestionStrategy_aggregate_def
  RatingQuestionStrategy_majority_def majority_body_def
  aggregate_body_def submitted_responses_def py_mean_def py_truediv_def py_max_def py_min_def
  UnificationValueSchema_new_def strategy_validator_def RatingQuestionStrategy_of_def
  LabelQuestionStrategy_of_def MultiLabelQuestionStrategy_of_def
  response_of_def record_of_def max_count_of_def most_common_first_def random_choice_def
  LabelQuestionStrategyMixin_unify_responses_def LabelQuestionStrategyMixin_disagreement_def
  LabelQuestionStrategy_majority_def MultiLabelQuestionStrategy_majority_def
  multi_label_majority_body_def disagreement_body_def pure_body_def

text \<open>
  Claim C6. For ratings 4, 5, 5 submitted and 1 discarded the claim has the mean
  (4+5+5)/3, the maximum 5 and the minimum 4 stored as one unification value. The maximum
  and the minimum are stored so. The mean is the float of a true division, which the
  value type of \<^verbatim>\<open>UnificationValueSchema\<close> does not admit: the constructor fails
  and the record is left as it was.
\<close>

theorem rating_mean_is_rejected:
  "RatingQuestionStrategy_unify_responses R_MEAN (\<lambda>n. 0) 0 [ratings_445] (FieldStr ''q'') =
     (Inl ValidationError, [ratings_445], 0) \<and>
   RatingQuestionStrategy_unify_responses R_MAX (\<lambda>n. 0) 0 [ratings_445] (FieldStr ''q'') =
     (Inr TheRecords,
      [ratings_445\<lparr>unified_responses :=
          Some [(''q'', Single \<lparr>uv_value = VInt 5, uv_strategy = RatingMember R_MAX\<rparr>)]\<rparr>], 0) \<and>
   RatingQuestionStrategy_unify_responses R_MIN (\<lambda>n. 0) 0 [ratings_445] (FieldStr ''q'') =
     (Inr TheRecords,
      [ratings_445\<lparr>unified_responses :=
          Some [(''q'', Single \<lparr>uv_value = VInt 4, uv_strategy = RatingMember R_MIN\<rparr>)]\<rparr>], 0)"
  by (simp add: eval_defs ratings_445_def)

text \<open>
  Claim C3. The claim has every reduction return the list of records it was given. The
  single-label majority returns its last record instead (and raises on an empty list),
  and the disagreement reduction returns a new empty list; the multi-label majority and
  the rating strategies return the list.
\<close>

theorem reduce_returns_other_object:
  "fst (LabelQuestionStrategyMixin_unify_responses (LabelS L_MAJORITY) (\<lambda>n. 0) 0 [labels_aba]
          (FieldStr ''q'')) = Inr (TheRecord 0) \<and>
   fst (LabelQuestionStrategyMixin_unify_responses (LabelS L_DISAGREEMENT) (\<lambda>n. 0) 0 [labels_aba]
          (FieldStr ''q'')) = Inr (NewList []) \<and>
   fst (LabelQuestionStrategyMixin_unify_responses (MultiLabelS M_DISAGREEMENT) (\<lambda>n. 0) 0
          [labels_aba] (FieldStr ''q'')) = Inr (NewList []) \<and>
   fst (LabelQuestionStrategyMixin_unify_responses (LabelS L_MAJORITY) (\<lambda>n. 0) 0 []
          (FieldStr ''q'')) = Inl UnboundLocalError \<and>
   fst (LabelQuestionStrategyMixin_unify_responses (MultiLabelS M_MAJORITY) (\<lambda>n. 0) 0 [labels_aba]
          (FieldStr ''q'')) = Inr TheRecords \<and>
   fst (RatingQuestionStrategy_unify_responses R_MAJORITY (\<lambda>n. 0) 0 [ratings_445]
          (FieldStr ''q'')) = Inr TheRecords"
  by (simp add: eval_defs ratings_445_def labels_aba_def)

text \<open>
  Claim C4. The claim has \<^verbatim>\<open>TrainingDataForTextClassification.unify_responses\<close> do
  what the bound strategy's \<^verbatim>\<open>unify_responses\<close> does with the bound question. It
  passes the records under the keyword \<^verbatim>\<open>responses\<close>, which the strategy's method
  does not have: the call raises and no record changes, where the direct call stores the
  maximum.
\<close>

theorem training_data_unify_raises:
  "TrainingDataForTextClassification_unify_responses
     \<lparr>td_text = \<lparr>tf_name = ''text'', tf_use_markdown = False, tf_settings = []\<rparr>,
      td_label = RatingUnification
        \<lparr>ru_question = \<lparr>rq_name = ''q'', rq_values = [1, 2, 3, 4, 5], rq_settings = []\<rparr>,
         ru_strategy = R_MAX\<rparr>\<rparr>
     (\<lambda>n. 0) 0 [ratings_445] = (Inl TypeError, [ratings_445], 0) \<and>
   RatingQuestionStrategy_unify_responses R_MAX (\<lambda>n. 0) 0 [ratings_445]
     (FieldQuestion (RatingQ \<lparr>rq_name = ''q'', rq_values = [1, 2, 3, 4, 5], rq_settings = []\<rparr>)) =
     (Inr TheRecords,
      [ratings_445\<lparr>unified_responses :=
          Some [(''q'', Single \<lparr>uv_value = VInt 5, uv_strategy = RatingMember R_MAX\<rparr>)]\<rparr>], 0)"
  by (simp add: TrainingDataForTextClassification_unify_responses_def bind_keywords_def
        unify_responses_parameters_def eval_defs ratings_445_def)

text \<open>The same for every binding and every list of records.\<close>

lemma training_data_unify_always_raises:
  "TrainingDataForTextClassification_unify_responses self rnd k resps = (Inl TypeError, resps, k)"
  by (simp add: TrainingDataForTextClassification_unify_responses_def bind_keywords_def
        unify_responses_parameters_def)

subsection \<open>The loop and what it assigns\<close>


lemma for_records_rel:
  assumes body: "\<And>k rec rec' k'. body k rec = Inr (rec', k') \<Longrightarrow> P rec rec'"
    and run: "for_records body k recs = (r, recs', k')"
  shows "list_all2 (\<lambda>a b. b = a \<or> P a b) recs recs' \<and> (r = None \<longrightarrow> list_all2 P recs recs')"
  using run
proof (induction recs arbitrary: k r recs' k')
  case Nil
  then show ?case by simp
next
  case (Cons rec recs)
  show ?case
  proof (cases "body k rec")
    case (Inl e)
    with Cons.prems have "r = Some e" "recs' = rec # recs" by auto
    then show ?thesis by (simp add: list_all2_refl)
  next
    case (Inr p)
    obtain rec' k1 where p: "p = (rec', k1)" by (cases p)
    obtain r2 recs2 k2 where rest: "for_records body k1 recs = (r2, recs2, k2)"
      by (cases "for_records body k1 recs")
    from Cons.prems Inr p rest have eq: "r = r2" "recs' = rec' # recs2" by auto
    from body Inr p have "P rec rec'" by simp
    with Cons.IH [OF rest] eq show ?thesis by simp
  qed
qed




lemma pure_body_eq_Inr:
  "pure_body f k rec = Inr (rec', k') \<longleftrightarrow> f rec = Inr rec' \<and> k' = k"
  by (cases "f rec") (auto simp: pure_body_def)


lemma aggregate_body_assigns:
  "aggregate_body s A rec = Inr rec' \<Longrightarrow> \<exists>x. rec' = rec\<lparr>unified_responses := Some [(A, x)]\<rparr>"
  unfolding aggregate_body_def by (auto split: sum.splits)

lemma majority_body_assigns:
  "majority_body tag rnd A k rec = Inr (rec', k') \<Longrightarrow>
     \<exists>x. rec' = rec\<lparr>unified_responses := Some [(A, x)]\<rparr>"
  unfolding majority_body_def Let_def by (auto split: sum.splits prod.splits)

lemma disagreement_body_assigns:
  "disagreement_body tag A rec = Inr rec' \<Longrightarrow>
     \<exists>x. rec' = rec\<lparr>unified_responses := Some [(A, x)]\<rparr>"
  unfolding disagreement_body_def by (auto split: sum.splits)

lemma multi_label_majority_body_assigns:
  "multi_label_majority_body tag A rec = Inr rec' \<Longrightarrow>
     \<exists>x. rec' = rec\<lparr>unified_responses := Some [(A, x)]\<rparr>"
  unfolding multi_label_majority_body_def Let_def by (auto split: sum.splits)

lemma loop_assigns:
  assumes body: "\<forall>k rec rec' k'. body k rec = Inr (rec', k') \<longrightarrow>
                   (\<exists>x. rec' = rec\<lparr>unified_responses := Some [(A, x)]\<rparr>)"
    and run: "for_records body k records = (r, recs', k')"
  shows "length recs' = length records \<and>
         (\<forall>i < length records.
            recs' ! i = records ! i \<or>
            (\<exists>x. recs' ! i = (records ! i)\<lparr>unified_responses := Some [(A, x)]\<rparr>)) \<and>
         (r = None \<longrightarrow>
            (\<forall>i < length records.
               \<exists>x. recs' ! i = (records ! i)\<lparr>unified_responses := Some [(A, x)]\<rparr>))"
proof -
  have "\<And>k rec rec' k'. body k rec = Inr (rec', k') \<Longrightarrow>
          \<exists>x. rec' = rec\<lparr>unified_responses := Some [(A, x)]\<rparr>"
    using body by blast
  from for_records_rel [of body "\<lambda>rec rec'. \<exists>x. rec' = rec\<lparr>unified_responses := Some [(A, x)]\<rparr>",
          OF this run]
  show ?thesis by (auto simp: list_all2_conv_all_nth)
qed

lemma rating_unify_assigns:
  assumes "RatingQuestionStrategy_unify_responses s rnd k records (FieldStr A) = (r, recs', k')"
  shows "length recs' = length records \<and>
         (\<forall>i < length records.
            recs' ! i = records ! i \<or>
            (\<exists>x. recs' ! i = (records ! i)\<lparr>unified_responses := Some [(A, x)]\<rparr>)) \<and>
         ((\<exists>ret. r = Inr ret) \<longrightarrow>
            (\<forall>i < length records.
               \<exists>x. recs' ! i = (records ! i)\<lparr>unified_responses := Some [(A, x)]\<rparr>))"
proof (cases "s = R_MAJORITY")
  case True
  obtain r0 recs0 k0 where run:
    "for_records (majority_body (rating_value s) rnd A) k records = (r0, recs0, k0)"
    by (cases "for_records (majority_body (rating_value s) rnd A) k records")
  from assms True run have eq: "recs' = recs0" "(\<exists>ret. r = Inr ret) \<longrightarrow> r0 = None"
    by (auto simp: RatingQuestionStrategy_unify_responses_def RatingQuestionStrategy_majority_def
             split: option.splits)
  have body: "\<forall>k rec rec' k'. majority_body (rating_value s) rnd A k rec = Inr (rec', k') \<longrightarrow>
                   (\<exists>x. rec' = rec\<lparr>unified_responses := Some [(A, x)]\<rparr>)"
    using majority_body_assigns by blast
  from loop_assigns [OF body run] eq show ?thesis by blast
next
  case False
  then have nm: "rating_value s \<noteq> ''majority''" by (cases s) auto
  obtain r0 recs0 k0 where run:
    "for_records (pure_body (aggregate_body s A)) k records = (r0, recs0, k0)"
    by (cases "for_records (pure_body (aggregate_body s A)) k records")
  from assms nm run have eq: "recs' = recs0" "(\<exists>ret. r = Inr ret) \<longrightarrow> r0 = None"
    by (auto simp: RatingQuestionStrategy_unify_responses_def RatingQuestionStrategy_aggregate_def
             split: option.splits)
  have body: "\<forall>k rec rec' k'. pure_body (aggregate_body s A) k rec = Inr (rec', k') \<longrightarrow>
                   (\<exists>x. rec' = rec\<lparr>unified_responses := Some [(A, x)]\<rparr>)"
    by (simp add: pure_body_eq_Inr aggregate_body_assigns)
  from loop_assigns [OF body run] eq show ?thesis by blast
qed

lemma label_unify_dispatch:
  "LabelQuestionStrategyMixin_unify_responses (LabelS L_MAJORITY) rnd k records (FieldStr A) =
     LabelQuestionStrategy_majority L_MAJORITY rnd k records A"
  "LabelQuestionStrategyMixin_unify_responses (LabelS L_MAJORITY_WEIGHTED) rnd k records (FieldStr A) =
     (Inl NotImplementedError, records, k)"
  "LabelQuestionStrategyMixin_unify_responses (LabelS L_DISAGREEMENT) rnd k records (FieldStr A) =
     LabelQuestionStrategyMixin_disagreement (LabelS L_DISAGREEMENT) k records A"
  "LabelQuestionStrategyMixin_unify_responses (MultiLabelS M_MAJORITY) rnd k records (FieldStr A) =
     MultiLabelQuestionStrategy_majority M_MAJORITY k records A"
  "LabelQuestionStrategyMixin_unify_responses (MultiLabelS M_MAJORITY_WEIGHTED) rnd k records (FieldStr A) =
     (Inl NotImplementedError, records, k)"
  "LabelQuestionStrategyMixin_unify_responses (MultiLabelS M_DISAGREEMENT) rnd k records (FieldStr A) =
     LabelQuestionStrategyMixin_disagreement (MultiLabelS M_DISAGREEMENT) k records A"
  by (simp_all add: LabelQuestionStrategyMixin_unify_responses_def)

lemma label_majority_run:
  assumes "LabelQuestionStrategy_majority l rnd k records A = (r, recs', k')"
  shows "\<exists>r0. for_records (majority_body (label_value l) rnd A) k records = (r0, recs', k') \<and>
              ((\<exists>ret. r = Inr ret) \<longrightarrow> r0 = None)"
proof -
  obtain r0 recs0 k0 where run:
    "for_records (majority_body (label_value l) rnd A) k records = (r0, recs0, k0)"
    by (cases "for_records (majority_body (label_value l) rnd A) k records")
  show ?thesis
  proof (cases r0)
    case None
    with assms run show ?thesis
      by (cases "records = []") (simp_all add: LabelQuestionStrategy_majority_def)
  next
    case (Some e)
    with assms run show ?thesis by (auto simp: LabelQuestionStrategy_majority_def)
  qed
qed

lemma multi_label_majority_run:
  assumes "MultiLabelQuestionStrategy_majority m k records A = (r, recs', k')"
  shows "\<exists>r0. for_records (pure_body (multi_label_majority_body (multi_label_value m) A)) k records
                = (r0, recs', k') \<and>
              ((\<exists>ret. r = Inr ret) \<longrightarrow> r0 = None)"
proof -
  let ?body = "pure_body (multi_label_majority_body (multi_label_value m) A)"
  obtain r0 recs0 k0 where run: "for_records ?body k records = (r0, recs0, k0)"
    by (cases "for_records ?body k records")
  show ?thesis
  proof (cases r0)
    case None
    with assms run show ?thesis by (simp add: MultiLabelQuestionStrategy_majority_def)
  next
    case (Some e)
    with assms run show ?thesis by (auto simp: MultiLabelQuestionStrategy_majority_def)
  qed
qed

lemma disagreement_run:
  assumes "LabelQuestionStrategyMixin_disagreement s k records A = (r, recs', k')"
  shows "\<exists>r0. for_records (pure_body (disagreement_body (strategy_value s) A)) k records
                = (r0, recs', k') \<and>
              ((\<exists>ret. r = Inr ret) \<longrightarrow> r0 = None)"
proof -
  let ?body = "pure_body (disagreement_body (strategy_value s) A)"
  obtain r0 recs0 k0 where run: "for_records ?body k records = (r0, recs0, k0)"
    by (cases "for_records ?body k records")
  show ?thesis
  proof (cases r0)
    case None
    with assms run show ?thesis by (simp add: LabelQuestionStrategyMixin_disagreement_def)
  next
    case (Some e)
    with assms run show ?thesis by (auto simp: LabelQuestionStrategyMixin_disagreement_def)
  qed
qed

lemma label_majority_assigns:
  assumes "LabelQuestionStrategy_majority l rnd k records A = (r, recs', k')"
  shows "length recs' = length records \<and>
         (\<forall>i < length records.
            recs' ! i = records ! i \<or>
            (\<exists>x. recs' ! i = (records ! i)\<lparr>unified_responses := Some [(A, x)]\<rparr>)) \<and>
         ((\<exists>ret. r = Inr ret) \<longrightarrow>
            (\<forall>i < length records.
               \<exists>x. recs' ! i = (records ! i)\<lparr>unified_responses := Some [(A, x)]\<rparr>))"
proof -
  from label_majority_run [OF assms] obtain r0 where
    run: "for_records (majority_body (label_value l) rnd A) k records = (r0, recs', k')"
    and ok: "(\<exists>ret. r = Inr ret) \<longrightarrow> r0 = None" by blast
  have body: "\<forall>k rec rec' k'. majority_body (label_value l) rnd A k rec = Inr (rec', k') \<longrightarrow>
                   (\<exists>x. rec' = rec\<lparr>unified_responses := Some [(A, x)]\<rparr>)"
    using majority_body_assigns by blast
  from loop_assigns [OF body run] ok show ?thesis by blast
qed

lemma multi_label_majority_assigns:
  assumes "MultiLabelQuestionStrategy_majority m k records A = (r, recs', k')"
  shows "length recs' = length records \<and>
         (\<forall>i < length records.
            recs' ! i = records ! i \<or>
            (\<exists>x. recs' ! i = (records ! i)\<lparr>unified_responses := Some [(A, x)]\<rparr>)) \<and>
         ((\<exists>ret. r = Inr ret) \<longrightarrow>
            (\<forall>i < length records.
               \<exists>x. recs' ! i = (records ! i)\<lparr>unified_responses := Some [(A, x)]\<rparr>))"
proof -
  let ?body = "pure_body (multi_label_majority_body (multi_label_value m) A)"
  from multi_label_majority_run [OF assms] obtain r0 where
    run: "for_records ?body k records = (r0, recs', k')"
    and ok: "(\<exists>ret. r = Inr ret) \<longrightarrow> r0 = None" by blast
  have body: "\<forall>k rec rec' k'. ?body k rec = Inr (rec', k') \<longrightarrow>
                   (\<exists>x. rec' = rec\<lparr>unified_responses := Some [(A, x)]\<rparr>)"
    by (simp add: pure_body_eq_Inr multi_label_majority_body_assigns)
  from loop_assigns [OF body run] ok show ?thesis by blast
qed

lemma disagreement_assigns:
  assumes "LabelQuestionStrategyMixin_disagreement s k records A = (r, recs', k')"
  shows "length recs' = length records \<and>
         (\<forall>i < length records.
            recs' ! i = records ! i \<or>
            (\<exists>x. recs' ! i = (records ! i)\<lparr>unified_responses := Some [(A, x)]\<rparr>)) \<and>
         ((\<exists>ret. r = Inr ret) \<longrightarrow>
            (\<forall>i < length records.
               \<exists>x. recs' ! i = (records ! i)\<lparr>unified_responses := Some [(A, x)]\<rparr>))"
proof -
  let ?body = "pure_body (disagreement_body (strategy_value s) A)"
  from disagreement_run [OF assms] obtain r0 where
    run: "for_records ?body k records = (r0, recs', k')"
    and ok: "(\<exists>ret. r = Inr ret) \<longrightarrow> r0 = None" by blast
  have body: "\<forall>k rec rec' k'. ?body k rec = Inr (rec', k') \<longrightarrow>
                   (\<exists>x. rec' = rec\<lparr>unified_responses := Some [(A, x)]\<rparr>)"
    by (simp add: pure_body_eq_Inr disagreement_body_assigns)
  from loop_assigns [OF body run] ok show ?thesis by blast
qed

lemma label_unify_assigns:
  assumes "LabelQuestionStrategyMixin_unify_responses s rnd k records (FieldStr A) = (r, recs', k')"
  shows "length recs' = length records \<and>
         (\<forall>i < length records.
            recs' ! i = records ! i \<or>
            (\<exists>x. recs' ! i = (records ! i)\<lparr>unified_responses := Some [(A, x)]\<rparr>)) \<and>
         ((\<exists>ret. r = Inr ret) \<longrightarrow>
            (\<forall>i < length records.
               \<exists>x. recs' ! i = (records ! i)\<lparr>unified_responses := Some [(A, x)]\<rparr>))"
proof (cases s)
  case (LabelS l)
  show ?thesis
  proof (cases l)
    case L_MAJORITY
    with assms LabelS
    have "LabelQuestionStrategy_majority L_MAJORITY rnd k records A = (r, recs', k')"
      by (simp add: label_unify_dispatch)
    then show ?thesis by (rule label_majority_assigns)
  next
    case L_MAJORITY_WEIGHTED
    with assms LabelS have "r = Inl NotImplementedError" "recs' = records"
      by (simp_all add: label_unify_dispatch)
    then show ?thesis by simp
  next
    case L_DISAGREEMENT
    with assms LabelS
    have "LabelQuestionStrategyMixin_disagreement (LabelS L_DISAGREEMENT) k records A = (r, recs', k')"
      by (simp add: label_unify_dispatch)
    then show ?thesis by (rule disagreement_assigns)
  qed
next
  case (MultiLabelS m)
  show ?thesis
  proof (cases m)
    case M_MAJORITY
    with assms MultiLabelS
    have "MultiLabelQuestionStrategy_majority M_MAJORITY k records A = (r, recs', k')"
      by (simp add: label_unify_dispatch)
    then show ?thesis by (rule multi_label_majority_assigns)
  next
    case M_MAJORITY_WEIGHTED
    with assms MultiLabelS have "r = Inl NotImplementedError" "recs' = records"
      by (simp_all add: label_unify_dispatch)
    then show ?thesis by simp
  next
    case M_DISAGREEMENT
    with assms MultiLabelS
    have "LabelQuestionStrategyMixin_disagreement (MultiLabelS M_DISAGREEMENT) k records A =
            (r, recs', k')"
      by (simp add: label_unify_dispatch)
    then show ?thesis by (rule disagreement_assigns)
  qed
qed

text \<open>
  Claim C7, as amended. Every reduction assigns to \<^verbatim>\<open>rec.unified_responses\<close> a new
  dict with the one key \<^verbatim>\<open>A\<close>. After a call for \<^verbatim>\<open>A\<close>, whichever the
  strategy, every record is either as it was (the call raised before reaching it) or has
  a map that consists of the entry for \<^verbatim>\<open>A\<close> alone, all its other attributes
  being unchanged; when the call returns, every record is of the second kind. An entry
  for another question does not outlive the call in a record that was processed.
\<close>

theorem reduce_replaces_whole_map:
  assumes "RatingQuestionStrategy_unify_responses rs rnd k records (FieldStr A) = (r, recs', k') \<or>
           LabelQuestionStrategyMixin_unify_responses ls rnd k records (FieldStr A) = (r, recs', k')"
  shows "length recs' = length records \<and>
         (\<forall>i < length records.
            recs' ! i = records ! i \<or>
            (\<exists>x. recs' ! i = (records ! i)\<lparr>unified_responses := Some [(A, x)]\<rparr>)) \<and>
         ((\<exists>ret. r = Inr ret) \<longrightarrow>
            (\<forall>i < length records.
               \<exists>x. recs' ! i = (records ! i)\<lparr>unified_responses := Some [(A, x)]\<rparr>))"
  using assms
proof
  assume "RatingQuestionStrategy_unify_responses rs rnd k records (FieldStr A) = (r, recs', k')"
  then show ?thesis by (rule rating_unify_assigns)
next
  assume "LabelQuestionStrategyMixin_unify_responses ls rnd k records (FieldStr A) = (r, recs', k')"
  then show ?thesis by (rule label_unify_assigns)
qed

theorem reduce_replaces_whole_map_witness:
  "RatingQuestionStrategy_unify_responses R_MAX (\<lambda>n. 0) 0 [rated_a_with_b] (FieldStr ''a'') =
     (Inr TheRecords,
      [rated_a_with_b\<lparr>unified_responses :=
         Some [(''a'', Single \<lparr>uv_value = VInt 4, uv_strategy = RatingMember R_MAX\<rparr>)]\<rparr>], 0) \<and>
   (\<exists>x. [rated_a_with_b\<lparr>unified_responses :=
            Some [(''a'', Single \<lparr>uv_value = VInt 4, uv_strategy = RatingMember R_MAX\<rparr>)]\<rparr>] ! 0 =
        ([rated_a_with_b] ! 0)\<lparr>unified_responses := Some [(''a'', x)]\<rparr>)"
proof -
  have run: "RatingQuestionStrategy_unify_responses R_MAX (\<lambda>n. 0) 0 [rated_a_with_b] (FieldStr ''a'') =
     (Inr TheRecords,
      [rated_a_with_b\<lparr>unified_responses :=
         Some [(''a'', Single \<lparr>uv_value = VInt 4, uv_strategy = RatingMember R_MAX\<rparr>)]\<rparr>], 0)"
    by (simp add: RatingQuestionStrategy_unify_responses_def RatingQuestionStrategy_aggregate_def
          aggregate_body_def submitted_responses_def py_max_def pure_body_def
          UnificationValueSchema_new_def strategy_validator_def RatingQuestionStrategy_of_def
          rated_a_with_b_def)
  from reduce_replaces_whole_map [OF disjI1 [OF run]] run show ?thesis by simp
qed

text \<open>
  Claim C7 as stated fails: a record that holds a unified entry for \<^verbatim>\<open>b\<close> holds,
  after the maximum of \<^verbatim>\<open>a\<close> has been reduced, the entry for \<^verbatim>\<open>a\<close> and no
  entry for \<^verbatim>\<open>b\<close>.
\<close>

theorem reduce_drops_other_entry:
  "map_of (the (unified_responses rated_a_with_b)) ''b'' =
     Some (Single \<lparr>uv_value = VInt 3, uv_strategy = RatingMember R_MAX\<rparr>) \<and>
   RatingQuestionStrategy_unify_responses R_MAX (\<lambda>n. 0) 0 [rated_a_with_b] (FieldStr ''a'') =
     (Inr TheRecords,
      [rated_a_with_b\<lparr>unified_responses :=
         Some [(''a'', Single \<lparr>uv_value = VInt 4, uv_strategy = RatingMember R_MAX\<rparr>)]\<rparr>], 0) \<and>
   map_of (the (unified_responses
      (rated_a_with_b\<lparr>unified_responses :=
         Some [(''a'', Single \<lparr>uv_value = VInt 4, uv_strategy = RatingMember R_MAX\<rparr>)]\<rparr>))) ''b'' = None"
  by (simp add: RatingQuestionStrategy_unify_responses_def RatingQuestionStrategy_aggregate_def
        aggregate_body_def submitted_responses_def py_max_def pure_body_def
        UnificationValueSchema_new_def strategy_validator_def RatingQuestionStrategy_of_def
        rated_a_with_b_def)

text \<open>A field given as a question of the strategy's family stands for its name.\<close>

lemma unify_by_question:
  "RatingQuestionStrategy_unify_responses rs rnd k records (FieldQuestion (RatingQ q)) =
     RatingQuestionStrategy_unify_responses rs rnd k records (FieldStr (rq_name q))"
  "LabelQuestionStrategyMixin_unify_responses ls rnd k records (FieldQuestion (LabelsQ (LabelQuestion lq))) =
     LabelQuestionStrategyMixin_unify_responses ls rnd k records (FieldStr (lq_name lq))"
  "LabelQuestionStrategyMixin_unify_responses ls rnd k records (FieldQuestion (LabelsQ (MultiLabelQuestion lq))) =
     LabelQuestionStrategyMixin_unify_responses ls rnd k records (FieldStr (lq_name lq))"
  by (simp_all add: RatingQuestionStrategy_unify_responses_def
        LabelQuestionStrategyMixin_unify_responses_def)

subsection \<open>Records without a submitted response\<close>











subsection \<open>Counters\<close>














subsection \<open>The multi-label majority\<close>





lemma count_list_distinct: "distinct xs \<Longrightarrow> count_list xs l = (if l \<in> set xs then 1 else 0)"
  by (induction xs) auto

lemma count_list_concat_distinct:
  "\<forall>xs \<in> set xss. distinct xs \<Longrightarrow>
     count_list (concat xss) l = length (filter (\<lambda>xs. l \<in> set xs) xss)"
  by (induction xss) (simp_all add: count_list_distinct)

text \<open>
  When no response names a label twice, the frequency of a label is the number of
  submitted responses that chose it.
\<close>

lemma label_frequency_votes:
  assumes "\<forall>resp \<in> set (submitted_responses rec). distinct (chosen_labels field resp)"
  shows "label_frequency field rec l =
           length (filter (\<lambda>resp. l \<in> set (chosen_labels field resp)) (submitted_responses rec))"
proof -
  have "\<forall>xs \<in> set (map (chosen_labels field) (submitted_responses rec)). distinct xs"
    using assms by simp
  from count_list_concat_distinct [OF this, of l] show ?thesis
    by (simp add: label_frequency_def filter_map comp_def)
qed



end
